theory Spec2Isabelle
  imports Main "HOL-Library.AList"
begin

section \<open>Data model\<close>

text \<open>
  Identifiers (the text of a MongoDB ObjectId, a seat identifier, a store key) are strings; a
  character is a UTF-16 code unit below 256. Instants are milliseconds as \<open>Date.now()\<close>
  returns them. One request is handled at one instant \<open>now\<close>.
\<close>

subsection \<open>ObjectIds\<close>

text \<open>
  The \<open>_id\<close> of a document, and every path of type \<open>ObjectId\<close>, is an ObjectId, which
  prints as 24 hexadecimal digits in lower case. Where a string is given for one (the
  argument of \<open>findById\<close>, the \<open>_id\<close> of a filter, a path of a new document), mongoose
  casts it: a string matching \<open>/^[0-9a-fA-F]{24}$/\<close> is the ObjectId with these digits,
  any other string is refused with a \<open>CastError\<close>. (This is the rule of the current
  driver; older versions also took a string of 12 characters as the twelve bytes of an
  id.) A handler behind \<open>auth()\<close> gets \<open>req.user.id\<close> from the middleware, the \<open>_id\<close> of
  the user it found, and a new document gets its \<open>_id\<close> from the driver: the parameters
  \<open>uid\<close> and \<open>oid\<close> of the handlers stand for these ObjectIds and are their text.
\<close>

definition is_hex :: "char \<Rightarrow> bool" where
  "is_hex ch = (ch \<in> set ''0123456789abcdefABCDEF'')"

definition lower_hex :: "char \<Rightarrow> char" where
  "lower_hex ch =
     (if ch = CHR ''A'' then CHR ''a'' else if ch = CHR ''B'' then CHR ''b''
      else if ch = CHR ''C'' then CHR ''c'' else if ch = CHR ''D'' then CHR ''d''
      else if ch = CHR ''E'' then CHR ''e'' else if ch = CHR ''F'' then CHR ''f''
      else ch)"

definition cast_ObjectId :: "string \<Rightarrow> string option" where
  "cast_ObjectId t =
     (if length t = 24 \<and> list_all is_hex t then Some (map lower_hex t) else None)"

text \<open>What a call of the database layer throws: error 11000 of a unique index, the
  \<open>ValidationError\<close> of a document the schema refuses, the \<open>CastError\<close> of a query.\<close>

datatype db_error = DuplicateKey | ValidationError | CastError

subsection \<open>Documents\<close>

text \<open>models/Movie.js: the fields the handlers read. The remaining attributes
  (description, genre, duration, language, rating, posterUrl) are optional and no handler
  reads them; they are left out, so a request here is one that does not give them.\<close>

record movie =
  movie_id :: string
  title :: string
  releaseDate :: "int option"
  movie_isActive :: bool

text \<open>models/Show.js: the fields the handlers read. A seat of the layout has a row, a
  number and a type.\<close>

record seat_spec =
  seat_row :: string
  seat_number :: nat
  seat_type :: string

record show_doc =
  show_id :: string
  show_movieId :: string
  totalSeats :: nat
  seatLayout :: "seat_spec list"
  basePrice :: nat
  show_isActive :: bool

text \<open>models/Booking.js\<close>

datatype booking_status = CONFIRMED | CANCELLED

datatype payment_status = PENDING | SUCCESS | FAILED

datatype booking_source = WEB | MOBILE

record booking =
  booking_id :: string
  userId :: string
  showId :: string
  movieId :: string
  seats :: "string list"
  totalAmount :: nat
  bookingStatus :: booking_status
  paymentStatus :: payment_status
  bookingSource :: booking_source
  cancelledAt :: "nat option"

text \<open>models/Payment.js; \<open>transactionId\<close> is the instant that follows the text \<open>MOCK-\<close>, and
  \<open>pay_status\<close> (the schema's \<open>paymentStatus\<close>) is only ever \<open>SUCCESS\<close> or \<open>FAILED\<close>.\<close>

datatype payment_method = CARD | UPI | NETBANKING | WALLET

record payment =
  pay_bookingId :: string
  pay_userId :: string
  amount :: nat
  paymentMethod :: payment_method
  transactionId :: nat
  pay_status :: payment_status
  failureReason :: "string option"
  paidAt :: "nat option"

section \<open>The key store: the in-memory client of config/redis.js\<close>

text \<open>
  A stored value is a string. The handlers only ever write \<open>JSON.stringify\<close> of a lock
  \<open>{userId, lockedAt}\<close> or of a query result, and read it back with \<open>JSON.parse\<close>; the
  constructor says which text it is. \<open>NotJson\<close> is any text \<open>JSON.parse\<close> throws on.
\<close>

datatype cached = MovieList "movie list" | MovieDoc movie

datatype stored = LockInfo string nat | Cached cached | NotJson string

text \<open>The number \<open>incr\<close> computes: \<open>Number(...)\<close> of an object entry is \<open>NaN\<close>.\<close>

datatype jsnum = Num nat | NaN

text \<open>An entry of \<open>store\<close>: the object \<open>{value, expiresAt}\<close> that \<open>set\<close> writes, or the
  bare string \<open>String(next)\<close> that \<open>incr\<close> writes.\<close>

datatype entry = Entry stored "nat option" | Bare jsnum

record client =
  store :: "(string \<times> entry) list"
  ttlTimers :: "(string \<times> nat) list"

text \<open>\<open>expiresAt && Date.now() > expiresAt\<close>\<close>

fun expired :: "nat \<Rightarrow> nat option \<Rightarrow> bool" where
  "expired now None = False"
| "expired now (Some t) = (t \<noteq> 0 \<and> now > t)"

text \<open>\<open>get\<close>: a bare string destructures to \<open>undefined\<close>; an expired entry is deleted.\<close>

definition get :: "nat \<Rightarrow> client \<Rightarrow> string \<Rightarrow> stored option \<times> client" where
  "get now c key =
     (case map_of (store c) key of
        None \<Rightarrow> (None, c)
      | Some (Bare n) \<Rightarrow> (None, c)
      | Some (Entry v e) \<Rightarrow>
          if expired now e then (None, c\<lparr>store := AList.delete key (store c)\<rparr>)
          else (Some v, c))"

text \<open>\<open>set(key, value, 'EX', ttlSeconds)\<close>, the only mode the routes use.\<close>

definition set_EX :: "nat \<Rightarrow> client \<Rightarrow> string \<Rightarrow> stored \<Rightarrow> nat \<Rightarrow> client" where
  "set_EX now c key v ttlSeconds =
     c\<lparr>store := AList.update key (Entry v (Some (now + ttlSeconds * 1000))) (store c),
       ttlTimers := (if ttlSeconds > 0
                     then AList.update key (now + ttlSeconds * 1000) (ttlTimers c)
                     else ttlTimers c)\<rparr>"

text \<open>\<open>del\<close> of one key and of an array of keys; the timer of the key stays.\<close>

definition del :: "client \<Rightarrow> string \<Rightarrow> client" where
  "del c key = c\<lparr>store := AList.delete key (store c)\<rparr>"

definition del_many :: "client \<Rightarrow> string list \<Rightarrow> client" where
  "del_many c ks = fold (\<lambda>k c'. del c' k) ks c"

definition keys :: "client \<Rightarrow> string \<Rightarrow> string list" where
  "keys c pattern =
     (if CHR ''*'' \<notin> set pattern
      then (if map_of (store c) pattern \<noteq> None then [pattern] else [])
      else (let pre = takeWhile (\<lambda>x. x \<noteq> CHR ''*'') pattern
            in filter (\<lambda>k. take (length pre) k = pre) (map fst (store c))))"

fun js_succ :: "jsnum \<Rightarrow> jsnum" where
  "js_succ (Num n) = Num (n + 1)"
| "js_succ NaN = NaN"

fun js_gt :: "jsnum \<Rightarrow> nat \<Rightarrow> bool" where
  "js_gt (Num n) m = (n > m)"
| "js_gt NaN m = False"

definition incr :: "client \<Rightarrow> string \<Rightarrow> jsnum \<times> client" where
  "incr c key =
     (let current = (case map_of (store c) key of
                       None \<Rightarrow> Num 0
                     | Some (Bare n) \<Rightarrow> n
                     | Some (Entry v e) \<Rightarrow> NaN);
          next = js_succ current
      in (next, c\<lparr>store := AList.update key (Bare next) (store c)\<rparr>))"

text \<open>\<open>expire\<close>: assigning \<open>expiresAt\<close> to a bare string has no effect (the module is not in
  strict mode); the timer is set either way.\<close>

definition expire :: "nat \<Rightarrow> client \<Rightarrow> string \<Rightarrow> nat \<Rightarrow> nat \<times> client" where
  "expire now c key ttlSeconds =
     (case map_of (store c) key of
        None \<Rightarrow> (0, c)
      | Some e \<Rightarrow>
          (1, c\<lparr>store := AList.update key
                    (case e of Entry v x \<Rightarrow> Entry v (Some (now + ttlSeconds * 1000))
                             | Bare n \<Rightarrow> Bare n) (store c),
                ttlTimers := AList.update key (now + ttlSeconds * 1000) (ttlTimers c)\<rparr>))"

text \<open>The \<open>setTimeout\<close> callbacks: a timer that is due deletes its key and itself. A timer
  fires as soon as its delay has passed. \<open>ttlTimers\<close> is a \<open>Map\<close>: the timer of a key is
  the one \<open>map_of\<close> finds.\<close>

definition timer_due :: "nat \<Rightarrow> client \<Rightarrow> string \<Rightarrow> bool" where
  "timer_due now c k = (case map_of (ttlTimers c) k of None \<Rightarrow> False | Some t \<Rightarrow> t \<le> now)"

definition fire_timers :: "nat \<Rightarrow> client \<Rightarrow> client" where
  "fire_timers now c =
     c\<lparr>store := filter (\<lambda>(k, e). \<not> timer_due now c k) (store c),
       ttlTimers := filter (\<lambda>(k, t). \<not> timer_due now c k) (ttlTimers c)\<rparr>"

text \<open>The rate-limit gate, written out in both the lock and the booking handler:
  \<open>count = await redis.incr(rateKey); if (count === 1) await redis.expire(rateKey, ttl)\<close>.\<close>

definition rate_limit :: "nat \<Rightarrow> client \<Rightarrow> string \<Rightarrow> nat \<Rightarrow> jsnum \<times> client" where
  "rate_limit now c rateKey ttlSeconds =
     (case incr c rateKey of
        (count, c1) \<Rightarrow>
          (count, if count = Num 1 then snd (expire now c1 rateKey ttlSeconds) else c1))"

section \<open>Server state, notifications and responses\<close>

text \<open>The events the routes emit to the room \<open>show:<showId>\<close> of socket.io.\<close>

datatype event =
    seatsLocked string "string list" string
  | seatsBooked string "string list"
  | seatsClearedAfterPayment string

text \<open>\<open>io\<close> is \<open>req.app.get('io')\<close>: absent, or the events emitted so far with their rooms.\<close>

record state =
  redis :: client
  Show_docs :: "show_doc list"
  Movie_docs :: "movie list"
  Booking_docs :: "booking list"
  Payment_docs :: "payment list"
  io :: "(string \<times> event) list option"

definition emit :: "string \<Rightarrow> event \<Rightarrow> state \<Rightarrow> state" where
  "emit sid ev s =
     (case io s of
        None \<Rightarrow> s
      | Some evs \<Rightarrow> s\<lparr>io := Some (evs @ [(''show:'' @ sid, ev)])\<rparr>)"

text \<open>A seat of the seat map: the seat of the layout with its identifier and the two lock
  flags.\<close>

record seat_view =
  sv_seatId :: string
  sv_row :: string
  sv_number :: nat
  sv_type :: string
  isLocked :: bool
  lockedByUser :: bool

text \<open>A response is the HTTP status and the JSON body.\<close>

datatype body =
    Message string
  | Conflicts string "string list"
  | InvalidSeats string "string list"
  | LockedSeats string "string list" nat
  | BookingBody string booking
  | PaymentBody string payment booking
  | FromCache stored
  | FreshMovies "movie list"
  | FreshMovie movie
  | MovieCreated string movie
  | SeatsBody show_doc "seat_view list"

type_synonym response = "nat \<times> body"

text \<open>\<open>Show.findById(id)\<close>: the cast of the argument, then the document with that \<open>_id\<close>
  or \<open>null\<close>. Every handler runs inside \<open>try\<close> and answers an error it does not handle
  itself with 500.\<close>

definition Show_findById :: "show_doc list \<Rightarrow> string \<Rightarrow> db_error + show_doc option" where
  "Show_findById ss sid =
     (case cast_ObjectId sid of
        None \<Rightarrow> Inl CastError
      | Some i \<Rightarrow> Inr (find (\<lambda>d. show_id d = i) ss))"

section \<open>routes/show.routes.js: locking seats\<close>

definition SEAT_LOCK_TTL_SECONDS :: nat where
  "SEAT_LOCK_TTL_SECONDS = 5 * 60"

definition LOCK_RATE_LIMIT_TTL :: nat where
  "LOCK_RATE_LIMIT_TTL = 60"

definition LOCK_RATE_LIMIT_MAX :: nat where
  "LOCK_RATE_LIMIT_MAX = 20"

definition getSeatKey :: "string \<Rightarrow> string \<Rightarrow> string" where
  "getSeatKey sid seatId = ''seatlock:'' @ sid @ '':'' @ seatId"

definition lockRateKey :: "string \<Rightarrow> string \<Rightarrow> string" where
  "lockRateKey uid sid = ''ratelimit:lock:'' @ uid @ '':'' @ sid"

text \<open>The test of the per-seat loop on what \<open>redis.get\<close> returned: a conflict when the
  value is truthy and either does not parse, or parses to something whose \<open>userId\<close> is not
  the requester's. A parsed query result has no \<open>userId\<close>, which prints as \<open>undefined\<close>.\<close>

fun lock_conflict :: "string \<Rightarrow> stored option \<Rightarrow> bool" where
  "lock_conflict uid None = False"
| "lock_conflict uid (Some (LockInfo holder t)) = (holder \<noteq> uid)"
| "lock_conflict uid (Some (Cached d)) = (''undefined'' \<noteq> uid)"
| "lock_conflict uid (Some (NotJson t)) = (t \<noteq> [])"

text \<open>First loop: collect the conflicting seat identifiers.\<close>

fun check_seats :: "nat \<Rightarrow> string \<Rightarrow> string \<Rightarrow> string list \<Rightarrow> client \<Rightarrow> string list \<times> client" where
  "check_seats now uid sid [] c = ([], c)"
| "check_seats now uid sid (seatId # rest) c =
     (case get now c (getSeatKey sid seatId) of
        (existingRaw, c1) \<Rightarrow>
          (case check_seats now uid sid rest c1 of
             (conflicts, c2) \<Rightarrow>
               ((if lock_conflict uid existingRaw then [seatId] else []) @ conflicts, c2)))"

text \<open>Second loop: write the lock of every seat.\<close>

fun set_locks :: "nat \<Rightarrow> string \<Rightarrow> string \<Rightarrow> string list \<Rightarrow> client \<Rightarrow> client" where
  "set_locks now uid sid [] c = c"
| "set_locks now uid sid (seatId # rest) c =
     set_locks now uid sid rest
       (set_EX now c (getSeatKey sid seatId) (LockInfo uid now) SEAT_LOCK_TTL_SECONDS)"

text \<open>
  The block between the payload and the broadcast. \<open>redis\<close> is the \<open>proxy\<close> object of
  config/redis.js, whose methods are get, set, del, keys, incr, expire, pttl, ttl, ping and
  disconnect: it has no \<open>eval\<close>, whichever client it delegates to. So
  \<open>typeof redis.eval === 'function'\<close> is false, the Lua script is never sent,
  \<open>conflicts\<close> is still empty after the first \<open>if\<close>, and the guard
  \<open>!conflicts.length && typeof redis.eval !== 'function'\<close> of the per-seat block holds:
  the two loops always run, the second only when the first found no conflict.
\<close>

definition acquire :: "nat \<Rightarrow> string \<Rightarrow> string \<Rightarrow> string list \<Rightarrow> client \<Rightarrow> string list \<times> client" where
  "acquire now uid sid reqSeats c =
     (case check_seats now uid sid reqSeats c of
        (conflicts, c1) \<Rightarrow>
          if conflicts = [] then ([], set_locks now uid sid reqSeats c1)
          else (conflicts, c1))"

text \<open>POST /api/shows/:showId/lock-seats\<close>

definition lock_seats :: "nat \<Rightarrow> string \<Rightarrow> string \<Rightarrow> string list \<Rightarrow> state \<Rightarrow> response \<times> state" where
  "lock_seats now uid sid reqSeats s =
     (if reqSeats = [] then ((400, Message ''Seats array is required''), s)
      else
        (case rate_limit now (redis s) (lockRateKey uid sid) LOCK_RATE_LIMIT_TTL of
           (count, c2) \<Rightarrow>
               if js_gt count LOCK_RATE_LIMIT_MAX
               then ((429, Message ''Too many seat lock attempts. Please slow down.''),
                     s\<lparr>redis := c2\<rparr>)
               else
                 (case Show_findById (Show_docs s) sid of
                    Inl err \<Rightarrow> ((500, Message ''Internal server error''), s\<lparr>redis := c2\<rparr>)
                  | Inr None \<Rightarrow> ((404, Message ''Show not found''), s\<lparr>redis := c2\<rparr>)
                  | Inr (Some sh) \<Rightarrow>
                      if \<not> show_isActive sh
                      then ((404, Message ''Show not found''), s\<lparr>redis := c2\<rparr>)
                      else
                        (case acquire now uid sid reqSeats c2 of
                           (conflicts, c3) \<Rightarrow>
                             let s' = emit sid (seatsLocked sid reqSeats uid) (s\<lparr>redis := c3\<rparr>)
                             in
                               if conflicts \<noteq> []
                               then ((409, Conflicts
                                        ''Some seats are already locked by other users''
                                        conflicts), s')
                               else ((200, LockedSeats ''Seats locked successfully'' reqSeats
                                        SEAT_LOCK_TTL_SECONDS), s')))))"

section \<open>routes/show.routes.js: the seat map\<close>

text \<open>The text of a non-negative integer in a template string.\<close>

definition digit :: "nat \<Rightarrow> char" where
  "digit d = ''0123456789'' ! d"

function decimal :: "nat \<Rightarrow> string" where
  "decimal n = (if n < 10 then [digit n] else decimal (n div 10) @ [digit (n mod 10)])"
  by pat_completeness auto
termination
  by (relation "measure (\<lambda>n. n)") auto

declare decimal.simps [simp del]

text \<open>\<open>key.split(':')\<close> and \<open>parts.join(':')\<close>\<close>

fun split_on :: "char \<Rightarrow> string \<Rightarrow> string list" where
  "split_on ch [] = [[]]"
| "split_on ch (x # xs) =
     (if x = ch then [] # split_on ch xs
      else (case split_on ch xs of
              [] \<Rightarrow> [[x]]
            | w # ws \<Rightarrow> (x # w) # ws))"

fun join_with :: "char \<Rightarrow> string list \<Rightarrow> string" where
  "join_with ch [] = []"
| "join_with ch [w] = w"
| "join_with ch (w # v # ws) = w @ ch # join_with ch (v # ws)"

text \<open>\<open>key.split(':').slice(2).join(':')\<close>\<close>

definition seat_of_key :: "string \<Rightarrow> string" where
  "seat_of_key key = join_with CHR '':'' (drop 2 (split_on CHR '':'' key))"

text \<open>The base seats: the layout of the show, or, when it is empty, rows \<open>A\<close> to \<open>E\<close> with
  \<open>Math.min(totalSeats / 5, 12) || 10\<close> seats each, counted by \<open>n <= perRow\<close> from 1.\<close>

definition base_seats :: "show_doc \<Rightarrow> seat_view list" where
  "base_seats sh =
     (let seats = map (\<lambda>p. \<lparr>sv_seatId = seat_row p @ ''-'' @ decimal (seat_number p),
                              sv_row = seat_row p, sv_number = seat_number p,
                              sv_type = seat_type p, isLocked = False,
                              lockedByUser = False\<rparr>) (seatLayout sh);
          perRow = (if totalSeats sh = 0 then 10 else min (totalSeats sh div 5) 12)
      in if seats \<noteq> [] then seats
         else concat (map (\<lambda>row. map (\<lambda>n. \<lparr>sv_seatId = row @ ''-'' @ decimal n,
                                                sv_row = row, sv_number = n,
                                                sv_type = ''REGULAR'', isLocked = False,
                                                lockedByUser = False\<rparr>)
                                        [1 ..< Suc perRow])
                          [''A'', ''B'', ''C'', ''D'', ''E'']))"

text \<open>\<open>Promise.all(keys.map((k) => redis.get(k)))\<close>: the reads, in the order of the keys.\<close>

fun get_all :: "nat \<Rightarrow> string list \<Rightarrow> client \<Rightarrow> stored option list \<times> client" where
  "get_all now [] c = ([], c)"
| "get_all now (k # ks) c =
     (case get now c k of
        (v, c1) \<Rightarrow>
          (case get_all now ks c1 of
             (vs, c2) \<Rightarrow> (v # vs, c2)))"

text \<open>\<open>lockedMap\<close>: a value that is falsy or does not parse is skipped; the others are
  stored under the seat identifier read off the key.\<close>

fun locked_map :: "(string \<times> stored option) list \<Rightarrow> (string \<times> stored) list
    \<Rightarrow> (string \<times> stored) list" where
  "locked_map [] acc = acc"
| "locked_map ((key, None) # rest) acc = locked_map rest acc"
| "locked_map ((key, Some (NotJson t)) # rest) acc = locked_map rest acc"
| "locked_map ((key, Some (LockInfo u t)) # rest) acc =
     locked_map rest (AList.update (seat_of_key key) (LockInfo u t) acc)"
| "locked_map ((key, Some (Cached d)) # rest) acc =
     locked_map rest (AList.update (seat_of_key key) (Cached d) acc)"

text \<open>GET /api/shows/:showId/seats. The route has no \<open>auth\<close> middleware, so \<open>req.user\<close> is
  undefined, \<open>userId\<close> is \<open>null\<close> and \<open>lockedByUser\<close> is never true.\<close>

definition show_seats :: "nat \<Rightarrow> string \<Rightarrow> state \<Rightarrow> response \<times> state" where
  "show_seats now sid s =
     (case Show_findById (Show_docs s) sid of
        Inl err \<Rightarrow> ((500, Message ''Internal server error''), s)
      | Inr None \<Rightarrow> ((404, Message ''Show not found''), s)
      | Inr (Some sh) \<Rightarrow>
          if \<not> show_isActive sh then ((404, Message ''Show not found''), s)
          else
            let ks = keys (redis s) (''seatlock:'' @ sid @ '':'' @ ''*'') in
            (case get_all now ks (redis s) of
               (vals, c1) \<Rightarrow>
                 let lockedMap = locked_map (zip ks vals) [] in
                 ((200, SeatsBody sh
                          (map (\<lambda>v. v\<lparr>isLocked := (map_of lockedMap (sv_seatId v) \<noteq> None),
                                        lockedByUser := False\<rparr>)
                               (base_seats sh))),
                  s\<lparr>redis := c1\<rparr>)))"

text \<open>The event loop between two requests: the timers that are due fire.\<close>

definition tick :: "nat \<Rightarrow> state \<Rightarrow> state" where
  "tick now s = s\<lparr>redis := fire_timers now (redis s)\<rparr>"




text \<open>What a lock request may leave behind. \<open>holds_lock\<close>: the key holds the lock
  written at \<open>now\<close> for \<open>uid\<close>, with the configured time to live on the entry and on its
  timer. \<open>locks_untouched\<close>: apart from the rate-limit counter \<open>rateKey\<close>, every key has
  the entry and the timer it had, save that an entry already expired at \<open>now\<close> may have
  been dropped by the \<open>get\<close> that found it.\<close>

definition holds_lock :: "nat \<Rightarrow> string \<Rightarrow> client \<Rightarrow> string \<Rightarrow> bool" where
  "holds_lock now uid c key =
     (map_of (store c) key
        = Some (Entry (LockInfo uid now) (Some (now + SEAT_LOCK_TTL_SECONDS * 1000))) \<and>
      map_of (ttlTimers c) key = Some (now + SEAT_LOCK_TTL_SECONDS * 1000))"

definition locks_untouched :: "nat \<Rightarrow> string \<Rightarrow> client \<Rightarrow> client \<Rightarrow> bool" where
  "locks_untouched now rateKey c c' =
     (\<forall>k. k \<noteq> rateKey \<longrightarrow>
        map_of (ttlTimers c') k = map_of (ttlTimers c) k \<and>
        (map_of (store c') k = map_of (store c) k \<or>
         (map_of (store c') k = None \<and>
          (\<exists>v e. map_of (store c) k = Some (Entry v e) \<and> expired now e))))"

text \<open>The seats of a request that the per-seat check counts as conflicts, read off the
  store the request finds.\<close>

definition conflicting_seats :: "nat \<Rightarrow> string \<Rightarrow> string \<Rightarrow> string list \<Rightarrow> client \<Rightarrow> string list" where
  "conflicting_seats now uid sid reqSeats c =
     filter (\<lambda>x. lock_conflict uid (fst (get now c (getSeatKey sid x)))) reqSeats"

section \<open>models/Booking.js: the collection and its unique indexes\<close>

text \<open>
  The keys of a document in the index \<open>{showId: 1, seats: 1}\<close>, declared \<open>unique\<close> with
  \<open>partialFilterExpression: {bookingStatus: 'CONFIRMED'}\<close>. The index is multikey: one key
  per element of \<open>seats\<close>, and one key without a seat for an empty array. Only a
  \<open>CONFIRMED\<close> document is in the index.
\<close>

definition index_keys :: "booking \<Rightarrow> (string \<times> string option) list" where
  "index_keys b =
     (if bookingStatus b = CONFIRMED
      then (if seats b = [] then [(showId b, None)]
            else map (\<lambda>x. (showId b, Some x)) (seats b))
      else [])"

text \<open>
  What the schema does to a new document before the insert. The \<open>_id\<close> and the paths
  \<open>userId\<close>, \<open>showId\<close> and \<open>movieId\<close> are cast to ObjectId. Every element of \<open>seats\<close> is
  \<open>required\<close>, which for a string means not empty. The result is the document to insert,
  or nothing when the schema refuses it. The other paths get a value of their type from the
  handler (\<open>totalAmount\<close> a number, the three states a member of their \<open>enum\<close>).
\<close>

definition Booking_validate :: "booking \<Rightarrow> booking option" where
  "Booking_validate doc =
     (case cast_ObjectId (booking_id doc) of
        None \<Rightarrow> None
      | Some i \<Rightarrow>
          (case cast_ObjectId (userId doc) of
             None \<Rightarrow> None
           | Some u \<Rightarrow>
               (case cast_ObjectId (showId doc) of
                  None \<Rightarrow> None
                | Some sh \<Rightarrow>
                    (case cast_ObjectId (movieId doc) of
                       None \<Rightarrow> None
                     | Some mv \<Rightarrow>
                         if [] \<in> set (seats doc) then None
                         else Some (doc\<lparr>booking_id := i, userId := u, showId := sh,
                                        movieId := mv\<rparr>)))))"

text \<open>\<open>Booking.create\<close>: a document the schema refuses is not sent to the database
  (\<open>ValidationError\<close>); the insert of the others is refused with error 11000 when another
  document has the same \<open>_id\<close> or shares a key of the unique index. The result is the
  document as stored and the collection with it.\<close>

definition Booking_create :: "booking \<Rightarrow> booking list \<Rightarrow> db_error + booking \<times> booking list" where
  "Booking_create doc coll =
     (case Booking_validate doc of
        None \<Rightarrow> Inl ValidationError
      | Some d \<Rightarrow>
          if \<exists>b \<in> set coll. booking_id b = booking_id d \<or>
                              (\<exists>k \<in> set (index_keys b). k \<in> set (index_keys d))
          then Inl DuplicateKey
          else Inr (d, coll @ [d]))"

definition Booking_findById :: "booking list \<Rightarrow> string \<Rightarrow> db_error + booking option" where
  "Booking_findById coll bid =
     (case cast_ObjectId bid of
        None \<Rightarrow> Inl CastError
      | Some i \<Rightarrow> Inr (find (\<lambda>b. booking_id b = i) coll))"

text \<open>\<open>Booking.findOne({_id: id, userId})\<close>\<close>

definition Booking_findOne :: "booking list \<Rightarrow> string \<Rightarrow> string \<Rightarrow> db_error + booking option" where
  "Booking_findOne coll bid uid =
     (case cast_ObjectId bid of
        None \<Rightarrow> Inl CastError
      | Some i \<Rightarrow>
          (case cast_ObjectId uid of
             None \<Rightarrow> Inl CastError
           | Some u \<Rightarrow> Inr (find (\<lambda>b. booking_id b = i \<and> userId b = u) coll)))"

text \<open>\<open>Booking.find({showId, seats: {$in: seats}, bookingStatus: {$ne: 'CANCELLED'}})\<close>\<close>

definition Booking_find_conflicting ::
  "booking list \<Rightarrow> string \<Rightarrow> string list \<Rightarrow> db_error + booking list" where
  "Booking_find_conflicting coll sid reqSeats =
     (case cast_ObjectId sid of
        None \<Rightarrow> Inl CastError
      | Some i \<Rightarrow>
          Inr (filter (\<lambda>b. showId b = i \<and> (\<exists>x \<in> set (seats b). x \<in> set reqSeats) \<and>
                           bookingStatus b \<noteq> CANCELLED) coll))"

text \<open>\<open>booking.save()\<close>: the update of the document with this \<open>_id\<close>. The handlers only save
  a change of \<open>paymentStatus\<close>, or a move to \<open>CANCELLED\<close>, which takes the document out of the
  partial index, so the unique index never refuses a save.\<close>

fun save_booking :: "booking \<Rightarrow> booking list \<Rightarrow> booking list" where
  "save_booking d [] = []"
| "save_booking d (b # bs) =
     (if booking_id b = booking_id d then d # bs else b # save_booking d bs)"

section \<open>models/Movie.js: the collection\<close>

text \<open>\<open>trim: true\<close> on the title: \<open>String.prototype.trim\<close> removes leading and trailing
  white space and line terminators. Of the code units below 256 these are tab, line feed,
  vertical tab, form feed, carriage return, space and the no-break space U+00A0.\<close>

definition is_space :: "char \<Rightarrow> bool" where
  "is_space ch =
     (ch \<in> set [CHR '' '', CHR 0x09, CHR 0x0A, CHR 0x0B, CHR 0x0C, CHR 0x0D, CHR 0xA0])"

definition js_trim :: "string \<Rightarrow> string" where
  "js_trim t = rev (dropWhile is_space (rev (dropWhile is_space t)))"

text \<open>\<open>Movie.create\<close>: the \<open>_id\<close> is cast, the title is required after trimming, and
  \<open>_id\<close> is unique. \<open>isActive\<close> takes its default.\<close>

definition Movie_create :: "movie \<Rightarrow> movie list \<Rightarrow> db_error + movie \<times> movie list" where
  "Movie_create doc coll =
     (case cast_ObjectId (movie_id doc) of
        None \<Rightarrow> Inl ValidationError
      | Some i \<Rightarrow>
          if js_trim (title doc) = [] then Inl ValidationError
          else if \<exists>m \<in> set coll. movie_id m = i then Inl DuplicateKey
          else (let d = doc\<lparr>movie_id := i, title := js_trim (title doc)\<rparr>
                in Inr (d, coll @ [d])))"

definition Movie_findById :: "movie list \<Rightarrow> string \<Rightarrow> db_error + movie option" where
  "Movie_findById coll mid =
     (case cast_ObjectId mid of
        None \<Rightarrow> Inl CastError
      | Some i \<Rightarrow> Inr (find (\<lambda>m. movie_id m = i) coll))"

text \<open>\<open>sort({releaseDate: -1})\<close>: newest first, a missing date last. The order of movies
  with the same date is the order of insertion here.\<close>

fun newer :: "int option \<Rightarrow> int option \<Rightarrow> bool" where
  "newer (Some a) (Some b) = (a > b)"
| "newer (Some a) None = True"
| "newer None b = False"

fun insert_desc :: "movie \<Rightarrow> movie list \<Rightarrow> movie list" where
  "insert_desc m [] = [m]"
| "insert_desc m (x # xs) =
     (if newer (releaseDate m) (releaseDate x) then m # x # xs else x # insert_desc m xs)"

text \<open>\<open>Movie.find({isActive: true}).sort({releaseDate: -1})\<close>\<close>

definition Movie_find_active :: "movie list \<Rightarrow> movie list" where
  "Movie_find_active coll = fold insert_desc (filter movie_isActive coll) []"

section \<open>routes/booking.routes.js\<close>

definition BOOKING_RATE_LIMIT_TTL :: nat where
  "BOOKING_RATE_LIMIT_TTL = 60"

definition BOOKING_RATE_LIMIT_MAX :: nat where
  "BOOKING_RATE_LIMIT_MAX = 10"

definition bookingRateKey :: "string \<Rightarrow> string" where
  "bookingRateKey uid = ''ratelimit:booking:'' @ uid"

text \<open>The test of the validation loop on what \<open>redis.get\<close> returned: the seat is invalid
  when there is no value, when the value does not parse, or when its \<open>userId\<close> is not the
  requester's.\<close>

fun lock_invalid :: "string \<Rightarrow> stored option \<Rightarrow> bool" where
  "lock_invalid uid None = True"
| "lock_invalid uid (Some (LockInfo holder t)) = (holder \<noteq> uid)"
| "lock_invalid uid (Some (Cached d)) = (''undefined'' \<noteq> uid)"
| "lock_invalid uid (Some (NotJson t)) = True"

fun validate_locks :: "nat \<Rightarrow> string \<Rightarrow> string \<Rightarrow> string list \<Rightarrow> client \<Rightarrow> string list \<times> client" where
  "validate_locks now uid sid [] c = ([], c)"
| "validate_locks now uid sid (seatId # rest) c =
     (case get now c (getSeatKey sid seatId) of
        (raw, c1) \<Rightarrow>
          (case validate_locks now uid sid rest c1 of
             (invalidSeats, c2) \<Rightarrow>
               ((if lock_invalid uid raw then [seatId] else []) @ invalidSeats, c2)))"

text \<open>The loop \<open>for (const seatId of seats) await redis.del(getSeatKey(showId, seatId))\<close>\<close>

definition clear_locks :: "string \<Rightarrow> string list \<Rightarrow> client \<Rightarrow> client" where
  "clear_locks sid seatIds c = fold (\<lambda>seatId c'. del c' (getSeatKey sid seatId)) seatIds c"

text \<open>The seats the duplicate-key branch reports: the requested seats found in the
  bookings of the second query.\<close>

definition occupied_of :: "booking list \<Rightarrow> string list \<Rightarrow> string list" where
  "occupied_of conflicting reqSeats =
     filter (\<lambda>x. \<exists>d \<in> set conflicting. x \<in> set (seats d)) reqSeats"

text \<open>POST /api/bookings; \<open>oid\<close> is the \<open>_id\<close> the driver generates for the new document.
  The error of the second query is caught by the handler and answered 409 without seats.\<close>

definition create_booking ::
  "nat \<Rightarrow> string \<Rightarrow> string \<Rightarrow> string \<Rightarrow> string \<Rightarrow> string list \<Rightarrow> state \<Rightarrow> response \<times> state" where
  "create_booking now oid uid sid mid reqSeats s =
     (if sid = [] \<or> mid = [] \<or> reqSeats = []
      then ((400, Message ''showId, movieId and seats are required''), s)
      else
        (case rate_limit now (redis s) (bookingRateKey uid) BOOKING_RATE_LIMIT_TTL of
           (count, c2) \<Rightarrow>
               if js_gt count BOOKING_RATE_LIMIT_MAX
               then ((429, Message ''Too many bookings. Please slow down.''), s\<lparr>redis := c2\<rparr>)
               else
                 (case Show_findById (Show_docs s) sid of
                    Inl err \<Rightarrow> ((500, Message ''Internal server error''), s\<lparr>redis := c2\<rparr>)
                  | Inr None \<Rightarrow> ((404, Message ''Show not found''), s\<lparr>redis := c2\<rparr>)
                  | Inr (Some sh) \<Rightarrow>
                      if \<not> show_isActive sh
                      then ((404, Message ''Show not found''), s\<lparr>redis := c2\<rparr>)
                      else
                        (case Movie_findById (Movie_docs s) mid of
                           Inl err \<Rightarrow>
                             ((500, Message ''Internal server error''), s\<lparr>redis := c2\<rparr>)
                         | Inr None \<Rightarrow> ((404, Message ''Movie not found''), s\<lparr>redis := c2\<rparr>)
                         | Inr (Some mv) \<Rightarrow>
                             if \<not> movie_isActive mv
                             then ((404, Message ''Movie not found''), s\<lparr>redis := c2\<rparr>)
                             else
                               (case validate_locks now uid sid reqSeats c2 of
                                  (invalidSeats, c3) \<Rightarrow>
                                    if invalidSeats \<noteq> []
                                    then ((409, InvalidSeats
                                             ''Some seats are not locked by this user or lock expired''
                                             invalidSeats), s\<lparr>redis := c3\<rparr>)
                                    else
                                      let doc = \<lparr>booking_id = oid, userId = uid, showId = sid,
                                                 movieId = mid, seats = reqSeats,
                                                 totalAmount = basePrice sh * length reqSeats,
                                                 bookingStatus = CONFIRMED,
                                                 paymentStatus = PENDING,
                                                 bookingSource = WEB, cancelledAt = None\<rparr>
                                      in
                                        (case Booking_create doc (Booking_docs s) of
                                           Inl err \<Rightarrow>
                                             if err = DuplicateKey
                                             then
                                               (case Booking_find_conflicting
                                                       (Booking_docs s) sid reqSeats of
                                                  Inl qErr \<Rightarrow>
                                                    ((409, Message
                                                             ''Some seats were already booked''),
                                                     s\<lparr>redis := c3\<rparr>)
                                                | Inr conflicting \<Rightarrow>
                                                    ((409, InvalidSeats
                                                       ''Some seats were already booked by others''
                                                       (occupied_of conflicting reqSeats)),
                                                     s\<lparr>redis := c3\<rparr>))
                                             else ((500, Message ''Internal server error''),
                                                   s\<lparr>redis := c3\<rparr>)
                                         | Inr (booking, coll) \<Rightarrow>
                                             ((201, BookingBody
                                                      ''Booking created (pending payment)''
                                                      booking),
                                              emit sid (seatsBooked sid reqSeats)
                                                (s\<lparr>redis := clear_locks sid reqSeats c3,
                                                   Booking_docs := coll\<rparr>))))))))"

text \<open>PUT /api/bookings/:id/cancel\<close>

definition cancel_booking :: "nat \<Rightarrow> string \<Rightarrow> string \<Rightarrow> state \<Rightarrow> response \<times> state" where
  "cancel_booking now uid bid s =
     (case Booking_findOne (Booking_docs s) bid uid of
        Inl err \<Rightarrow> ((500, Message ''Internal server error''), s)
      | Inr None \<Rightarrow> ((404, Message ''Booking not found''), s)
      | Inr (Some b) \<Rightarrow>
          if bookingStatus b = CANCELLED
          then ((400, Message ''Booking already cancelled''), s)
          else if paymentStatus b = SUCCESS
          then ((400, Message ''Cannot cancel paid booking''), s)
          else
            let b' = b\<lparr>bookingStatus := CANCELLED, cancelledAt := Some now\<rparr>
            in ((200, BookingBody ''Booking cancelled'' b'),
                emit (showId b) (seatsClearedAfterPayment (showId b))
                  (s\<lparr>Booking_docs := save_booking b' (Booking_docs s),
                     redis := clear_locks (showId b) (seats b) (redis s)\<rparr>)))"

section \<open>routes/payment.routes.js\<close>

text \<open>\<open>['SUCCESS', 'FAILED'].includes(status)\<close>\<close>

definition parse_status :: "string \<Rightarrow> payment_status option" where
  "parse_status st =
     (if st = ''SUCCESS'' then Some SUCCESS
      else if st = ''FAILED'' then Some FAILED
      else None)"

text \<open>POST /api/payments/mock; \<open>payMethod\<close> defaults to \<open>CARD\<close>.\<close>

definition mock_payment ::
  "nat \<Rightarrow> string \<Rightarrow> string \<Rightarrow> string \<Rightarrow> payment_method option \<Rightarrow> string option \<Rightarrow> state
     \<Rightarrow> response \<times> state" where
  "mock_payment now uid bookingId st payMethod failReason s =
     (case (if bookingId = [] then None else parse_status st) of
        None \<Rightarrow>
          ((400, Message ''bookingId and valid status (SUCCESS/FAILED) are required''), s)
      | Some status \<Rightarrow>
          (case Booking_findById (Booking_docs s) bookingId of
             Inl err \<Rightarrow> ((500, Message ''Internal server error''), s)
           | Inr None \<Rightarrow> ((404, Message ''Booking not found''), s)
           | Inr (Some b) \<Rightarrow>
               if userId b \<noteq> uid
               then ((403, Message ''Cannot pay for another user booking''), s)
               else if paymentStatus b = SUCCESS
               then ((400, Message ''Booking already paid''), s)
               else
                 let pay = \<lparr>pay_bookingId = booking_id b, pay_userId = uid,
                            amount = totalAmount b,
                            paymentMethod = (case payMethod of None \<Rightarrow> CARD | Some m \<Rightarrow> m),
                            transactionId = now,
                            pay_status = status,
                            failureReason =
                              (if status = FAILED
                               then Some (case failReason of
                                            None \<Rightarrow> ''Mock failure''
                                          | Some r \<Rightarrow> if r = [] then ''Mock failure'' else r)
                               else None),
                            paidAt = (if status = SUCCESS then Some now else None)\<rparr>;
                     b1 = b\<lparr>paymentStatus := status\<rparr>;
                     b2 = (if status = FAILED then b1\<lparr>bookingStatus := CANCELLED\<rparr> else b1);
                     s1 = s\<lparr>Payment_docs := Payment_docs s @ [pay],
                            Booking_docs := save_booking b2 (Booking_docs s)\<rparr>;
                     s2 = (if status = SUCCESS
                           then emit (showId b) (seatsClearedAfterPayment (showId b))
                                  (s1\<lparr>redis := del_many (redis s1)
                                       (keys (redis s1) (''seatlock:'' @ showId b @ '':*''))\<rparr>)
                           else s1)
                 in ((201, PaymentBody ''Mock payment processed'' pay b2), s2)))"

section \<open>routes/movie.routes.js\<close>

definition MOVIES_CACHE_KEY :: string where
  "MOVIES_CACHE_KEY = ''movies:all''"

definition MOVIES_TTL_SECONDS :: nat where
  "MOVIES_TTL_SECONDS = 60"

text \<open>\<open>if (cached) return res.json({fromCache: true, data: JSON.parse(cached)})\<close> inside
  \<open>try\<close>: a value is served from the cache when it is truthy and parses.\<close>

fun cache_hit :: "stored option \<Rightarrow> stored option" where
  "cache_hit None = None"
| "cache_hit (Some (NotJson t)) = None"
| "cache_hit (Some (LockInfo u t)) = Some (LockInfo u t)"
| "cache_hit (Some (Cached d)) = Some (Cached d)"

text \<open>GET /api/movies\<close>

definition get_movies :: "nat \<Rightarrow> state \<Rightarrow> response \<times> state" where
  "get_movies now s =
     (case get now (redis s) MOVIES_CACHE_KEY of
        (cached, c1) \<Rightarrow>
          (case cache_hit cached of
             Some v \<Rightarrow> ((200, FromCache v), s\<lparr>redis := c1\<rparr>)
           | None \<Rightarrow>
               let loaded = Movie_find_active (Movie_docs s)
               in ((200, FreshMovies loaded),
                   s\<lparr>redis := set_EX now c1 MOVIES_CACHE_KEY (Cached (MovieList loaded))
                                MOVIES_TTL_SECONDS\<rparr>)))"

text \<open>GET /api/movies/:id\<close>

definition get_movie :: "nat \<Rightarrow> string \<Rightarrow> state \<Rightarrow> response \<times> state" where
  "get_movie now mid s =
     (case get now (redis s) (''movies:'' @ mid) of
        (cached, c1) \<Rightarrow>
          (case cache_hit cached of
             Some v \<Rightarrow> ((200, FromCache v), s\<lparr>redis := c1\<rparr>)
           | None \<Rightarrow>
               (case Movie_findById (Movie_docs s) mid of
                  Inl err \<Rightarrow> ((500, Message ''Internal server error''), s\<lparr>redis := c1\<rparr>)
                | Inr None \<Rightarrow> ((404, Message ''Movie not found''), s\<lparr>redis := c1\<rparr>)
                | Inr (Some m) \<Rightarrow>
                    if \<not> movie_isActive m
                    then ((404, Message ''Movie not found''), s\<lparr>redis := c1\<rparr>)
                    else ((200, FreshMovie m),
                          s\<lparr>redis := set_EX now c1 (''movies:'' @ mid) (Cached (MovieDoc m))
                                       MOVIES_TTL_SECONDS\<rparr>))))"

text \<open>POST /api/movies, after the \<open>ADMIN\<close> check of the middleware; \<open>oid\<close> is the \<open>_id\<close> of
  the new document.\<close>

definition create_movie :: "string \<Rightarrow> string \<Rightarrow> int option \<Rightarrow> state \<Rightarrow> response \<times> state" where
  "create_movie oid ttl rel s =
     (if ttl = [] then ((400, Message ''Title is required''), s)
      else
        (case Movie_create \<lparr>movie_id = oid, title = ttl, releaseDate = rel,
                            movie_isActive = True\<rparr> (Movie_docs s) of
           Inl err \<Rightarrow> ((500, Message ''Internal server error''), s)
         | Inr (m, coll) \<Rightarrow>
             ((201, MovieCreated ''Movie created'' m),
              s\<lparr>Movie_docs := coll,
                 redis := del (del (redis s) MOVIES_CACHE_KEY) (''movies:'' @ movie_id m)\<rparr>)))"

section \<open>The states the server reaches\<close>

text \<open>The invariant of the bookings collection: two different documents of the same show
  that are both not cancelled have no seat in common.\<close>

definition seats_disjoint :: "booking list \<Rightarrow> bool" where
  "seats_disjoint coll =
     (\<forall>i < length coll. \<forall>j < length coll.
        i \<noteq> j \<and> showId (coll ! i) = showId (coll ! j) \<and>
        bookingStatus (coll ! i) \<noteq> CANCELLED \<and> bookingStatus (coll ! j) \<noteq> CANCELLED
        \<longrightarrow> set (seats (coll ! i)) \<inter> set (seats (coll ! j)) = {})"

text \<open>The server starts with no booking, whatever else it holds; then timers fire and
  requests are handled, in any order and with any arguments.\<close>

inductive reachable :: "state \<Rightarrow> bool" where
  start: "Booking_docs s = [] \<Longrightarrow> reachable s"
| timers: "reachable s \<Longrightarrow> reachable (tick now s)"
| lock: "reachable s \<Longrightarrow> reachable (snd (lock_seats now uid sid reqSeats s))"
| seat_map: "reachable s \<Longrightarrow> reachable (snd (show_seats now sid s))"
| book: "reachable s \<Longrightarrow> reachable (snd (create_booking now oid uid sid mid reqSeats s))"
| cancel: "reachable s \<Longrightarrow> reachable (snd (cancel_booking now uid bid s))"
| pay: "reachable s \<Longrightarrow> reachable (snd (mock_payment now uid bid st payMethod failReason s))"
| list_movies: "reachable s \<Longrightarrow> reachable (snd (get_movies now s))"
| show_movie: "reachable s \<Longrightarrow> reachable (snd (get_movie now mid s))"
| add_movie: "reachable s \<Longrightarrow> reachable (snd (create_movie oid ttl rel s))"

section \<open>A small server state for the examples\<close>

text \<open>The ObjectIds of the examples: two users, a show, two movies and two bookings.\<close>

abbreviation U1 :: string where "U1 \<equiv> ''a1a1a1a1a1a1a1a1a1a1a1a1''"

abbreviation U2 :: string where "U2 \<equiv> ''a2a2a2a2a2a2a2a2a2a2a2a2''"

abbreviation S1 :: string where "S1 \<equiv> ''515151515151515151515151''"

abbreviation M1 :: string where "M1 \<equiv> ''e1e1e1e1e1e1e1e1e1e1e1e1''"

abbreviation M2 :: string where "M2 \<equiv> ''e2e2e2e2e2e2e2e2e2e2e2e2''"

abbreviation B1 :: string where "B1 \<equiv> ''b1b1b1b1b1b1b1b1b1b1b1b1''"

abbreviation B2 :: string where "B2 \<equiv> ''b2b2b2b2b2b2b2b2b2b2b2b2''"

definition demo_show :: show_doc where
  "demo_show =
     \<lparr>show_id = S1, show_movieId = M1, totalSeats = 3,
      seatLayout = [\<lparr>seat_row = ''A'', seat_number = 1, seat_type = ''REGULAR''\<rparr>,
                    \<lparr>seat_row = ''A'', seat_number = 2, seat_type = ''REGULAR''\<rparr>,
                    \<lparr>seat_row = ''B'', seat_number = 1, seat_type = ''PREMIUM''\<rparr>],
      basePrice = 250, show_isActive = True\<rparr>"

definition demo_movie :: movie where
  "demo_movie = \<lparr>movie_id = M1, title = ''Inception'', releaseDate = Some 1279238400000,
                  movie_isActive = True\<rparr>"

definition demo_state :: state where
  "demo_state = \<lparr>redis = \<lparr>store = [], ttlTimers = []\<rparr>, Show_docs = [demo_show],
                  Movie_docs = [demo_movie], Booking_docs = [], Payment_docs = [],
                  io = Some []\<rparr>"

text \<open>User \<open>U1\<close> locks seats \<open>A-1\<close> and \<open>A-2\<close> of the show at instant 0, and books them
  two seconds later.\<close>

definition demo_locked :: state where
  "demo_locked = snd (lock_seats 0 U1 S1 [''A-1'', ''A-2''] demo_state)"

definition demo_booked :: state where
  "demo_booked =
     snd (create_booking 2000 B1 U1 S1 M1 [''A-1'', ''A-2''] demo_locked)"

text \<open>A second later another user, \<open>U2\<close>, asks for the lock of \<open>A-1\<close>.\<close>

definition demo_relocked :: state where
  "demo_relocked = snd (lock_seats 3000 U2 S1 [''A-1''] demo_booked)"

text \<open>Instead, \<open>U1\<close> pays the booking at instant 5000.\<close>

definition demo_paid :: state where
  "demo_paid = snd (mock_payment 5000 U1 B1 ''SUCCESS'' None None demo_booked)"

text \<open>The movie list is read once, which fills the cache.\<close>

definition demo_cached :: state where
  "demo_cached = snd (get_movies 0 demo_state)"

section \<open>Facts about ObjectIds\<close>

lemma is_hex_lower: "is_hex ch \<Longrightarrow> is_hex (lower_hex ch)"
  by (auto simp: is_hex_def lower_hex_def)

lemma lower_hex_idem: "lower_hex (lower_hex ch) = lower_hex ch"
  by (simp add: lower_hex_def)

lemma cast_ObjectId_idem:
  assumes "cast_ObjectId t = Some i"
  shows "cast_ObjectId i = Some i"
proof -
  from assms have t: "length t = 24" "list_all is_hex t" and i: "i = map lower_hex t"
    by (auto simp: cast_ObjectId_def split: if_splits)
  from t(2) have "list_all is_hex (map lower_hex t)"
    by (induction t) (simp_all add: is_hex_lower)
  moreover have "map lower_hex (map lower_hex t) = map lower_hex t"
    by (simp add: lower_hex_idem)
  ultimately show ?thesis using t(1) i by (simp add: cast_ObjectId_def)
qed

lemma cast_ObjectId_chars:
  assumes "cast_ObjectId t = Some i"
  shows "CHR '':'' \<notin> set t" and "CHR ''*'' \<notin> set t"
proof -
  from assms have "list_all is_hex t"
    by (auto simp: cast_ObjectId_def split: if_splits)
  then have "\<forall>ch \<in> set t. is_hex ch" by (simp add: list_all_iff)
  moreover have "\<not> is_hex CHR '':''" "\<not> is_hex CHR ''*''" by (simp_all add: is_hex_def)
  ultimately show "CHR '':'' \<notin> set t" and "CHR ''*'' \<notin> set t" by auto
qed

lemma demo_ids:
  "cast_ObjectId U1 = Some U1" "cast_ObjectId U2 = Some U2" "cast_ObjectId S1 = Some S1"
  "cast_ObjectId M1 = Some M1" "cast_ObjectId M2 = Some M2" "cast_ObjectId B1 = Some B1"
  "cast_ObjectId B2 = Some B2"
  by (simp_all add: cast_ObjectId_def is_hex_def lower_hex_def)

section \<open>Facts about the key store and the lock loops\<close>


lemma seat_key_not_rate_key: "getSeatKey sid seatId \<noteq> lockRateKey uid sid'"
  by (simp add: getSeatKey_def lockRateKey_def)

lemma getSeatKey_inj: "(getSeatKey sid a = getSeatKey sid b) = (a = b)"
  by (simp add: getSeatKey_def)

lemma get_timers: "ttlTimers (snd (get now c k)) = ttlTimers c"
  by (simp add: get_def split: option.splits entry.splits)


lemma get_after_get: "fst (get now (snd (get now c k)) k') = fst (get now c k')"
  by (cases "k' = k") (auto simp: get_def delete_conv' split: option.splits entry.splits)

lemma check_seats_Cons_fst:
  "fst (check_seats now uid sid (x # xs) c) =
     (if lock_conflict uid (fst (get now c (getSeatKey sid x))) then [x] else [])
       @ fst (check_seats now uid sid xs (snd (get now c (getSeatKey sid x))))"
  by (simp add: split_beta)

lemma check_seats_Cons_snd:
  "snd (check_seats now uid sid (x # xs) c) =
     snd (check_seats now uid sid xs (snd (get now c (getSeatKey sid x))))"
  by (simp add: split_beta)

lemma check_seats_timers: "ttlTimers (snd (check_seats now uid sid xs c)) = ttlTimers c"
  by (induction xs arbitrary: c) (simp_all add: get_timers check_seats_Cons_snd del: check_seats.simps(2))

lemma check_seats_get: "fst (get now (snd (check_seats now uid sid xs c)) k) = fst (get now c k)"
  by (induction xs arbitrary: c) (simp_all add: get_after_get check_seats_Cons_snd del: check_seats.simps(2))

lemma check_seats_conflicts:
  "fst (check_seats now uid sid xs c) =
     filter (\<lambda>x. lock_conflict uid (fst (get now c (getSeatKey sid x)))) xs"
  by (induction xs arbitrary: c) (simp_all add: get_after_get check_seats_Cons_fst del: check_seats.simps(2))

lemma get_store_cases:
  "map_of (store (snd (get now c k))) k' = map_of (store c) k' \<or>
   (map_of (store (snd (get now c k))) k' = None \<and>
     (\<exists>v e. map_of (store c) k' = Some (Entry v e) \<and> expired now e))"
  by (cases "k' = k") (auto simp: get_def delete_conv' split: option.splits entry.splits)

lemma check_seats_store:
  "map_of (store (snd (check_seats now uid sid xs c))) k = map_of (store c) k \<or>
   (map_of (store (snd (check_seats now uid sid xs c))) k = None \<and>
     (\<exists>v e. map_of (store c) k = Some (Entry v e) \<and> expired now e))"
proof (induction xs arbitrary: c)
  case Nil
  show ?case by simp
next
  case (Cons x xs)
  show ?case
    using Cons.IH [of "snd (get now c (getSeatKey sid x))"]
      get_store_cases [of now c "getSeatKey sid x" k]
    by (auto simp: check_seats_Cons_snd simp del: check_seats.simps(2))
qed


lemma set_locks_store:
  "map_of (store (set_locks now uid sid xs c)) k =
     (if k \<in> getSeatKey sid ` set xs
      then Some (Entry (LockInfo uid now) (Some (now + SEAT_LOCK_TTL_SECONDS * 1000)))
      else map_of (store c) k)"
  by (induction xs arbitrary: c) (auto simp: set_EX_def update_conv')

lemma set_locks_timers:
  "map_of (ttlTimers (set_locks now uid sid xs c)) k =
     (if k \<in> getSeatKey sid ` set xs
      then Some (now + SEAT_LOCK_TTL_SECONDS * 1000)
      else map_of (ttlTimers c) k)"
  by (induction xs arbitrary: c) (auto simp: set_EX_def update_conv' SEAT_LOCK_TTL_SECONDS_def)







section \<open>The lock rate limiter\<close>












section \<open>Locking seats: all or nothing\<close>

lemma get_fst_cong:
  "map_of (store c) k = map_of (store c') k \<Longrightarrow> fst (get now c k) = fst (get now c' k)"
  by (simp add: get_def split: option.splits entry.splits)

lemma rate_limit_store_other:
  "k \<noteq> rk \<Longrightarrow> map_of (store (snd (rate_limit now c rk ttl))) k = map_of (store c) k"
  by (simp add: rate_limit_def incr_def expire_def Let_def update_conv' split: option.splits)

lemma rate_limit_timers_other:
  "k \<noteq> rk \<Longrightarrow> map_of (ttlTimers (snd (rate_limit now c rk ttl))) k = map_of (ttlTimers c) k"
  by (simp add: rate_limit_def incr_def expire_def Let_def update_conv' split: option.splits)

lemma conflicting_seats_after_gate:
  "conflicting_seats now uid sid xs (snd (rate_limit now c (lockRateKey uid sid) ttl))
     = conflicting_seats now uid sid xs c"
  unfolding conflicting_seats_def
  by (rule filter_cong [OF refl])
     (simp add: get_fst_cong [OF rate_limit_store_other] seat_key_not_rate_key)

lemma acquire_conflicts:
  "fst (acquire now uid sid xs c) = conflicting_seats now uid sid xs c"
  by (simp add: acquire_def split_beta check_seats_conflicts
        conflicting_seats_def)

lemma acquire_granted:
  assumes "conflicting_seats now uid sid xs c = []" "x \<in> set xs"
  shows "holds_lock now uid (snd (acquire now uid sid xs c)) (getSeatKey sid x)"
  using assms
  by (simp add: acquire_def split_beta check_seats_conflicts
        conflicting_seats_def holds_lock_def set_locks_store set_locks_timers)

lemma acquire_refused:
  assumes "conflicting_seats now uid sid xs c \<noteq> []"
  shows "ttlTimers (snd (acquire now uid sid xs c)) = ttlTimers c"
    and "map_of (store (snd (acquire now uid sid xs c))) k = map_of (store c) k \<or>
         (map_of (store (snd (acquire now uid sid xs c))) k = None \<and>
           (\<exists>v e. map_of (store c) k = Some (Entry v e) \<and> expired now e))"
  using assms check_seats_store [of now uid sid xs c k]
  by (simp_all add: acquire_def split_beta check_seats_conflicts
        conflicting_seats_def check_seats_timers)


lemma gate_untouched:
  "locks_untouched now rk c (snd (rate_limit now c rk ttl))"
  by (simp add: locks_untouched_def rate_limit_store_other rate_limit_timers_other)

lemma refused_untouched:
  assumes "conflicting_seats now uid sid xs c \<noteq> []"
  shows "locks_untouched now (lockRateKey uid sid) c
           (snd (acquire now uid sid xs
                  (snd (rate_limit now c (lockRateKey uid sid) ttl))))"
proof -
  let ?rk = "lockRateKey uid sid"
  let ?c2 = "snd (rate_limit now c ?rk ttl)"
  from assms have conf: "conflicting_seats now uid sid xs ?c2 \<noteq> []"
    by (simp add: conflicting_seats_after_gate)
  show ?thesis
    unfolding locks_untouched_def
  proof (intro allI impI conjI)
    fix k assume k: "k \<noteq> ?rk"
    show "map_of (ttlTimers (snd (acquire now uid sid xs ?c2))) k = map_of (ttlTimers c) k"
      using acquire_refused(1) [OF conf] rate_limit_timers_other [OF k] by simp
    show "map_of (store (snd (acquire now uid sid xs ?c2))) k = map_of (store c) k \<or>
          (map_of (store (snd (acquire now uid sid xs ?c2))) k = None \<and>
            (\<exists>v e. map_of (store c) k = Some (Entry v e) \<and> expired now e))"
      using acquire_refused(2) [OF conf, of k] rate_limit_store_other [OF k, of now c ttl]
      by simp
  qed
qed

text \<open>
  Claim C4. A lock request with a non-empty seat list has one of five outcomes. Refused by
  the rate limiter (429); failed with 500 because the show identifier is not an ObjectId
  and the lookup throws; refused for a missing or inactive show (404); or refused with 409
  because some requested seat is in conflict. In all these no lock key is created or
  changed, and the 409 carries exactly the requested seat identifiers found in conflict, in
  request order, not store keys. Otherwise the request is granted with 200 and the key of
  every requested seat holds the requester's lock with the 300 seconds of
  \<open>SEAT_LOCK_TTL_SECONDS\<close>.
\<close>

theorem lock_seats_all_or_nothing:
  assumes "reqSeats \<noteq> []"
  shows
    "if js_gt (fst (rate_limit now (redis s) (lockRateKey uid sid) LOCK_RATE_LIMIT_TTL))
          LOCK_RATE_LIMIT_MAX
     then fst (fst (lock_seats now uid sid reqSeats s)) = 429 \<and>
          locks_untouched now (lockRateKey uid sid) (redis s)
            (redis (snd (lock_seats now uid sid reqSeats s)))
     else if cast_ObjectId sid = None
     then fst (lock_seats now uid sid reqSeats s) = (500, Message ''Internal server error'') \<and>
          locks_untouched now (lockRateKey uid sid) (redis s)
            (redis (snd (lock_seats now uid sid reqSeats s)))
     else if (case Show_findById (Show_docs s) sid of
                Inl err \<Rightarrow> False
              | Inr None \<Rightarrow> True
              | Inr (Some sh) \<Rightarrow> \<not> show_isActive sh)
     then fst (fst (lock_seats now uid sid reqSeats s)) = 404 \<and>
          locks_untouched now (lockRateKey uid sid) (redis s)
            (redis (snd (lock_seats now uid sid reqSeats s)))
     else if conflicting_seats now uid sid reqSeats (redis s) = []
     then fst (lock_seats now uid sid reqSeats s)
            = (200, LockedSeats ''Seats locked successfully'' reqSeats SEAT_LOCK_TTL_SECONDS) \<and>
          (\<forall>x \<in> set reqSeats.
             holds_lock now uid (redis (snd (lock_seats now uid sid reqSeats s)))
               (getSeatKey sid x))
     else fst (lock_seats now uid sid reqSeats s)
            = (409, Conflicts ''Some seats are already locked by other users''
                      (conflicting_seats now uid sid reqSeats (redis s))) \<and>
          locks_untouched now (lockRateKey uid sid) (redis s)
            (redis (snd (lock_seats now uid sid reqSeats s)))"
proof -
  let ?c2 = "snd (rate_limit now (redis s) (lockRateKey uid sid) LOCK_RATE_LIMIT_TTL)"
  have gate: "locks_untouched now (lockRateKey uid sid) (redis s) ?c2"
    by (rule gate_untouched)
  show ?thesis
  proof (cases "cast_ObjectId sid")
    case None
    then have "Show_findById (Show_docs s) sid = Inl CastError"
      by (simp add: Show_findById_def)
    with assms None gate show ?thesis
      by (simp add: lock_seats_def split_beta)
  next
    case (Some i)
    then have found: "Show_findById (Show_docs s) sid
                        = Inr (find (\<lambda>d. show_id d = i) (Show_docs s))"
      by (simp add: Show_findById_def)
    from assms Some show ?thesis
      unfolding found
      by (auto simp: lock_seats_def found split_beta Let_def emit_def acquire_conflicts
            conflicting_seats_after_gate gate_untouched refused_untouched acquire_granted
          split: option.splits)
  qed
qed

text \<open>The definitions that evaluate a lock request on a concrete state.\<close>

lemmas lock_eval =
  lock_seats_def rate_limit_def incr_def expire_def Let_def
  Show_findById_def demo_ids acquire_def get_def set_EX_def getSeatKey_def
  lockRateKey_def emit_def LOCK_RATE_LIMIT_MAX_def LOCK_RATE_LIMIT_TTL_def
  SEAT_LOCK_TTL_SECONDS_def demo_show_def demo_movie_def

lemma demo_locked_eq:
  "demo_locked =
     \<lparr>redis = \<lparr>store = [(''ratelimit:lock:'' @ U1 @ '':'' @ S1, Bare (Num 1)),
                         (''seatlock:'' @ S1 @ '':A-1'', Entry (LockInfo U1 0) (Some 300000)),
                         (''seatlock:'' @ S1 @ '':A-2'', Entry (LockInfo U1 0) (Some 300000))],
               ttlTimers = [(''ratelimit:lock:'' @ U1 @ '':'' @ S1, 60000),
                            (''seatlock:'' @ S1 @ '':A-1'', 300000),
                            (''seatlock:'' @ S1 @ '':A-2'', 300000)]\<rparr>,
      Show_docs = [demo_show], Movie_docs = [demo_movie], Booking_docs = [],
      Payment_docs = [],
      io = Some [(''show:'' @ S1, seatsLocked S1 [''A-1'', ''A-2''] U1)]\<rparr>"
  by (simp add: demo_locked_def demo_state_def lock_eval)

text \<open>The outcomes on the example: \<open>U1\<close> is granted \<open>A-1\<close> and \<open>A-2\<close>; then
  \<open>U2\<close>, asking for \<open>A-1\<close> and \<open>B-1\<close>, is refused with \<open>A-1\<close> alone and \<open>B-1\<close> is
  not locked; and a request for a show identifier that is not an ObjectId is answered
  500 and locks nothing.\<close>

theorem lock_seats_all_or_nothing_witness:
  "fst (lock_seats 0 U1 S1 [''A-1'', ''A-2''] demo_state)
     = (200, LockedSeats ''Seats locked successfully'' [''A-1'', ''A-2''] 300) \<and>
   holds_lock 0 U1 (redis (snd (lock_seats 0 U1 S1 [''A-1'', ''A-2''] demo_state)))
     (getSeatKey S1 ''A-2'') \<and>
   fst (lock_seats 1000 U2 S1 [''A-1'', ''B-1''] demo_locked)
     = (409, Conflicts ''Some seats are already locked by other users'' [''A-1'']) \<and>
   locks_untouched 1000 (lockRateKey U2 S1) (redis demo_locked)
     (redis (snd (lock_seats 1000 U2 S1 [''A-1'', ''B-1''] demo_locked))) \<and>
   fst (lock_seats 1000 U2 ''not-an-id'' [''B-1''] demo_locked)
     = (500, Message ''Internal server error'') \<and>
   locks_untouched 1000 (lockRateKey U2 ''not-an-id'') (redis demo_locked)
     (redis (snd (lock_seats 1000 U2 ''not-an-id'' [''B-1''] demo_locked)))"
proof -
  have ne1: "[''A-1'', ''A-2''] \<noteq> []" and ne2: "[''A-1'', ''B-1''] \<noteq> []"
    and ne3: "[''B-1''] \<noteq> []" by simp_all
  have gate1: "\<not> js_gt (fst (rate_limit 0 (redis demo_state) (lockRateKey U1 S1)
                    LOCK_RATE_LIMIT_TTL)) LOCK_RATE_LIMIT_MAX"
    by (simp add: demo_state_def lock_eval)
  have gate2: "\<not> js_gt (fst (rate_limit 1000 (redis demo_locked) (lockRateKey U2 S1)
                    LOCK_RATE_LIMIT_TTL)) LOCK_RATE_LIMIT_MAX"
    by (simp add: demo_locked_eq lock_eval)
  have gate3: "\<not> js_gt (fst (rate_limit 1000 (redis demo_locked)
                    (lockRateKey U2 ''not-an-id'') LOCK_RATE_LIMIT_TTL)) LOCK_RATE_LIMIT_MAX"
    by (simp add: demo_locked_eq lock_eval)
  have id1: "cast_ObjectId S1 \<noteq> None" by (simp add: demo_ids)
  have id3: "cast_ObjectId ''not-an-id'' = None" by (simp add: cast_ObjectId_def)
  have show1: "Show_findById (Show_docs demo_state) S1 = Inr (Some demo_show)"
    by (simp add: demo_state_def Show_findById_def demo_ids demo_show_def)
  have show2: "Show_findById (Show_docs demo_locked) S1 = Inr (Some demo_show)"
    by (simp add: demo_locked_eq Show_findById_def demo_ids demo_show_def)
  have active: "show_isActive demo_show" by (simp add: demo_show_def)
  have free: "conflicting_seats 0 U1 S1 [''A-1'', ''A-2''] (redis demo_state) = []"
    by (simp add: conflicting_seats_def demo_state_def get_def)
  have taken: "conflicting_seats 1000 U2 S1 [''A-1'', ''B-1''] (redis demo_locked)
                 = [''A-1'']"
    by (simp add: conflicting_seats_def demo_locked_eq get_def getSeatKey_def)
  from lock_seats_all_or_nothing [OF ne1, where now = 0 and s = demo_state
      and uid = "U1" and sid = "S1"] gate1 id1 show1 active free
  have granted:
    "fst (lock_seats 0 U1 S1 [''A-1'', ''A-2''] demo_state)
       = (200, LockedSeats ''Seats locked successfully'' [''A-1'', ''A-2''] 300) \<and>
     holds_lock 0 U1 (redis (snd (lock_seats 0 U1 S1 [''A-1'', ''A-2''] demo_state)))
       (getSeatKey S1 ''A-2'')"
    by (simp add: SEAT_LOCK_TTL_SECONDS_def)
  from lock_seats_all_or_nothing [OF ne2, where now = 1000 and s = demo_locked
      and uid = "U2" and sid = "S1"] gate2 id1 show2 active taken
  have refused:
    "fst (lock_seats 1000 U2 S1 [''A-1'', ''B-1''] demo_locked)
       = (409, Conflicts ''Some seats are already locked by other users'' [''A-1'']) \<and>
     locks_untouched 1000 (lockRateKey U2 S1) (redis demo_locked)
       (redis (snd (lock_seats 1000 U2 S1 [''A-1'', ''B-1''] demo_locked)))"
    by simp
  from lock_seats_all_or_nothing [OF ne3, where now = 1000 and s = demo_locked
      and uid = "U2" and sid = "''not-an-id''"] gate3 id3
  have failed:
    "fst (lock_seats 1000 U2 ''not-an-id'' [''B-1''] demo_locked)
       = (500, Message ''Internal server error'') \<and>
     locks_untouched 1000 (lockRateKey U2 ''not-an-id'') (redis demo_locked)
       (redis (snd (lock_seats 1000 U2 ''not-an-id'' [''B-1''] demo_locked)))"
    by simp
  from granted refused failed show ?thesis by simp
qed

section \<open>Locking a seat again by its holder\<close>

text \<open>
  Against claim C3: in \<open>demo_locked\<close> user \<open>U1\<close> holds the lock of \<open>A-1\<close>, written at
  instant 0 and not expired at instant 1000; the same user's lock request for \<open>A-1\<close> at
  instant 1000 is answered 200, not 409.
\<close>

theorem same_holder_relock_counterexample:
  "fst (get 1000 (redis demo_locked) (getSeatKey S1 ''A-1'')) = Some (LockInfo U1 0) \<and>
   fst (lock_seats 1000 U1 S1 [''A-1''] demo_locked)
     = (200, LockedSeats ''Seats locked successfully'' [''A-1''] 300)"
  by (simp add: demo_locked_eq lock_eval)

text \<open>
  Claim C3, as the code has it. A requested seat whose unexpired lock is held by the
  requesting user is never among the conflicts of a 409: the per-seat check compares the
  holder with the requester. When the request passes the rate limit and the show check and
  no requested seat is in conflict, it is granted, and the seat's lock is written again
  with the new instant and a full time to live: the holder's second request refreshes the
  lock.
\<close>

theorem same_holder_relock_refreshes:
  assumes "x \<in> set reqSeats"
    and "fst (get now (redis s) (getSeatKey sid x)) = Some (LockInfo uid t)"
  shows
    "(\<forall>msg cs. snd (fst (lock_seats now uid sid reqSeats s)) = Conflicts msg cs
        \<longrightarrow> x \<notin> set cs) \<and>
     (\<not> js_gt (fst (rate_limit now (redis s) (lockRateKey uid sid) LOCK_RATE_LIMIT_TTL))
          LOCK_RATE_LIMIT_MAX \<and>
      (\<exists>sh. Show_findById (Show_docs s) sid = Inr (Some sh) \<and> show_isActive sh) \<and>
      conflicting_seats now uid sid reqSeats (redis s) = []
      \<longrightarrow> fst (lock_seats now uid sid reqSeats s)
            = (200, LockedSeats ''Seats locked successfully'' reqSeats SEAT_LOCK_TTL_SECONDS) \<and>
          holds_lock now uid (redis (snd (lock_seats now uid sid reqSeats s)))
            (getSeatKey sid x))"
proof -
  from assms(2) have own: "x \<notin> set (conflicting_seats now uid sid reqSeats (redis s))"
    by (simp add: conflicting_seats_def)
  from assms(1) have ne: "reqSeats \<noteq> []" by auto
  show ?thesis
    using own ne assms(1)
    by (auto simp: lock_seats_def split_beta Let_def emit_def acquire_conflicts
          conflicting_seats_after_gate acquire_granted
        split: option.splits sum.splits if_splits)
qed

theorem same_holder_relock_refreshes_witness:
  "fst (lock_seats 1000 U1 S1 [''A-1''] demo_locked)
     = (200, LockedSeats ''Seats locked successfully'' [''A-1''] 300) \<and>
   holds_lock 1000 U1 (redis (snd (lock_seats 1000 U1 S1 [''A-1''] demo_locked)))
     (getSeatKey S1 ''A-1'')"
proof -
  have mem: "''A-1'' \<in> set [''A-1'']" by simp
  have own: "fst (get 1000 (redis demo_locked) (getSeatKey S1 ''A-1''))
               = Some (LockInfo U1 0)"
    by (simp add: demo_locked_eq get_def getSeatKey_def)
  have gate: "\<not> js_gt (fst (rate_limit 1000 (redis demo_locked) (lockRateKey U1 S1)
                    LOCK_RATE_LIMIT_TTL)) LOCK_RATE_LIMIT_MAX"
    by (simp add: demo_locked_eq lock_eval)
  have shw: "\<exists>sh. Show_findById (Show_docs demo_locked) S1 = Inr (Some sh) \<and> show_isActive sh"
    by (simp add: demo_locked_eq Show_findById_def demo_ids demo_show_def)
  have free: "conflicting_seats 1000 U1 S1 [''A-1''] (redis demo_locked) = []"
    by (simp add: conflicting_seats_def demo_locked_eq get_def getSeatKey_def)
  from same_holder_relock_refreshes [OF mem own] gate shw free
  show ?thesis by (simp add: SEAT_LOCK_TTL_SECONDS_def)
qed

section \<open>The \<open>seatsLocked\<close> notification\<close>

text \<open>
  Claim C7 at a failing input. In \<open>demo_locked\<close> user \<open>U1\<close> holds \<open>A-1\<close>. The lock request
  of \<open>U2\<close> for \<open>A-1\<close> is answered 409 with the conflict \<open>A-1\<close>, and the event
  \<open>seatsLocked\<close> for show \<open>S1\<close>, seat \<open>A-1\<close> and user \<open>U2\<close> has been emitted to the
  room of the show all the same: the broadcast stands before the test of \<open>conflicts\<close>.
\<close>

theorem conflict_emits_seatsLocked:
  "fst (lock_seats 1000 U2 S1 [''A-1''] demo_locked)
     = (409, Conflicts ''Some seats are already locked by other users'' [''A-1'']) \<and>
   io (snd (lock_seats 1000 U2 S1 [''A-1''] demo_locked))
     = Some [(''show:'' @ S1, seatsLocked S1 [''A-1'', ''A-2''] U1),
             (''show:'' @ S1, seatsLocked S1 [''A-1''] U2)]"
  by (simp add: demo_locked_eq lock_eval)

section \<open>Locking a seat that is already booked\<close>

lemma clear_locks_Cons:
  "clear_locks sid (x # xs) c = clear_locks sid xs (del c (getSeatKey sid x))"
  by (simp add: clear_locks_def)

lemma clear_locks_store:
  "map_of (store (clear_locks sid xs c)) k =
     (if k \<in> getSeatKey sid ` set xs then None else map_of (store c) k)"
proof (induction xs arbitrary: c)
  case Nil
  show ?case by (simp add: clear_locks_def)
next
  case (Cons x xs)
  show ?case by (auto simp: clear_locks_Cons Cons.IH del_def delete_conv')
qed

lemma clear_locks_timers: "ttlTimers (clear_locks sid xs c) = ttlTimers c"
  by (induction xs arbitrary: c) (simp_all add: clear_locks_def del_def)

lemma create_booking_201:
  assumes "fst (fst (create_booking now oid uid sid mid reqSeats s)) = 201"
  shows "\<exists>sh. Show_findById (Show_docs s) sid = Inr (Some sh) \<and> show_isActive sh"
    and "\<exists>c. redis (snd (create_booking now oid uid sid mid reqSeats s))
               = clear_locks sid reqSeats c"
    and "Show_docs (snd (create_booking now oid uid sid mid reqSeats s)) = Show_docs s"
    and "\<exists>b. Booking_docs (snd (create_booking now oid uid sid mid reqSeats s))
               = Booking_docs s @ [b] \<and>
             cast_ObjectId oid = Some (booking_id b) \<and> cast_ObjectId uid = Some (userId b) \<and>
             cast_ObjectId sid = Some (showId b) \<and> seats b = reqSeats \<and>
             bookingStatus b = CONFIRMED \<and> paymentStatus b = PENDING"
    and "reqSeats \<noteq> []"
  using assms
  by (auto simp: create_booking_def split_beta Let_def emit_def Booking_create_def
        Booking_validate_def
      split: option.splits if_splits sum.splits)

lemmas booking_eval =
  create_booking_def rate_limit_def incr_def expire_def Let_def Show_findById_def
  Movie_findById_def demo_ids get_def del_def clear_locks_def getSeatKey_def
  bookingRateKey_def emit_def Booking_create_def Booking_validate_def
  Booking_find_conflicting_def occupied_of_def index_keys_def BOOKING_RATE_LIMIT_MAX_def
  BOOKING_RATE_LIMIT_TTL_def demo_show_def demo_movie_def

lemma demo_booked_eq:
  "demo_booked =
     \<lparr>redis = \<lparr>store = [(''ratelimit:lock:'' @ U1 @ '':'' @ S1, Bare (Num 1)),
                         (''ratelimit:booking:'' @ U1, Bare (Num 1))],
               ttlTimers = [(''ratelimit:lock:'' @ U1 @ '':'' @ S1, 60000),
                            (''seatlock:'' @ S1 @ '':A-1'', 300000),
                            (''seatlock:'' @ S1 @ '':A-2'', 300000),
                            (''ratelimit:booking:'' @ U1, 62000)]\<rparr>,
      Show_docs = [demo_show], Movie_docs = [demo_movie],
      Booking_docs = [\<lparr>booking_id = B1, userId = U1, showId = S1,
                        movieId = M1, seats = [''A-1'', ''A-2''], totalAmount = 500,
                        bookingStatus = CONFIRMED, paymentStatus = PENDING,
                        bookingSource = WEB, cancelledAt = None\<rparr>],
      Payment_docs = [],
      io = Some [(''show:'' @ S1, seatsLocked S1 [''A-1'', ''A-2''] U1),
                 (''show:'' @ S1, seatsBooked S1 [''A-1'', ''A-2''])]\<rparr>"
  by (simp add: demo_booked_def demo_locked_eq booking_eval)

lemmas seat_map_eval =
  show_seats_def Show_findById_def demo_ids keys_def get_def Let_def seat_of_key_def
  base_seats_def decimal.simps digit_def demo_show_def

lemma demo_locked_seat_map:
  "fst (show_seats 1000 S1 demo_locked)
     = (200, SeatsBody demo_show
          [\<lparr>sv_seatId = ''A-1'', sv_row = ''A'', sv_number = 1, sv_type = ''REGULAR'',
            isLocked = True, lockedByUser = False\<rparr>,
           \<lparr>sv_seatId = ''A-2'', sv_row = ''A'', sv_number = 2, sv_type = ''REGULAR'',
            isLocked = True, lockedByUser = False\<rparr>,
           \<lparr>sv_seatId = ''B-1'', sv_row = ''B'', sv_number = 1, sv_type = ''PREMIUM'',
            isLocked = False, lockedByUser = False\<rparr>])"
  by (simp add: demo_locked_eq seat_map_eval)

lemma demo_booked_seat_map:
  "fst (show_seats 3000 S1 demo_booked)
     = (200, SeatsBody demo_show
          [\<lparr>sv_seatId = ''A-1'', sv_row = ''A'', sv_number = 1, sv_type = ''REGULAR'',
            isLocked = False, lockedByUser = False\<rparr>,
           \<lparr>sv_seatId = ''A-2'', sv_row = ''A'', sv_number = 2, sv_type = ''REGULAR'',
            isLocked = False, lockedByUser = False\<rparr>,
           \<lparr>sv_seatId = ''B-1'', sv_row = ''B'', sv_number = 1, sv_type = ''PREMIUM'',
            isLocked = False, lockedByUser = False\<rparr>])"
  by (simp add: demo_booked_eq seat_map_eval)

lemma show_seats_ignores_bookings:
  "fst (show_seats now sid (s\<lparr>Booking_docs := bs\<rparr>)) = fst (show_seats now sid s)"
  by (simp add: show_seats_def split_beta Let_def split: option.splits sum.splits)

lemma split_on_not_Nil: "split_on ch s \<noteq> []"
  by (induction s) (auto split: list.splits)

lemma split_on_prefix:
  "ch \<notin> set xs \<Longrightarrow> split_on ch (xs @ ch # ys) = xs # split_on ch ys"
  by (induction xs) auto

lemma join_split: "join_with ch (split_on ch s) = s"
proof (induction s)
  case Nil
  show ?case by simp
next
  case (Cons x s)
  obtain w ws where sp: "split_on ch s = w # ws"
    using split_on_not_Nil [of ch s] by (cases "split_on ch s") auto
  show ?case
  proof (cases "x = ch")
    case True
    with sp Cons.IH show ?thesis by simp
  next
    case False
    have "join_with ch ((x # w) # ws) = x # join_with ch (w # ws)"
      by (cases ws) auto
    with False sp Cons.IH show ?thesis by simp
  qed
qed

lemma seat_of_seat_key:
  assumes "CHR '':'' \<notin> set sid"
  shows "seat_of_key (''seatlock:'' @ sid @ '':'' @ rest) = rest"
proof -
  have a: "''seatlock:'' @ sid @ '':'' @ rest = ''seatlock'' @ CHR '':'' # (sid @ CHR '':'' # rest)"
    by simp
  have b: "CHR '':'' \<notin> set ''seatlock''" by simp
  have "split_on CHR '':'' (''seatlock'' @ CHR '':'' # (sid @ CHR '':'' # rest))
          = ''seatlock'' # split_on CHR '':'' (sid @ CHR '':'' # rest)"
    by (rule split_on_prefix [OF b])
  also have "split_on CHR '':'' (sid @ CHR '':'' # rest) = sid # split_on CHR '':'' rest"
    by (rule split_on_prefix [OF assms])
  finally have "split_on CHR '':'' (''seatlock:'' @ sid @ '':'' @ rest)
          = ''seatlock'' # sid # split_on CHR '':'' rest"
    unfolding a .
  then show ?thesis by (simp add: seat_of_key_def join_split)
qed


lemma keys_prefix:
  assumes "CHR ''*'' \<notin> set P" "k \<in> set (keys c (P @ ''*''))"
  shows "take (length P) k = P" and "map_of (store c) k \<noteq> None"
proof -
  have "\<And>ys. CHR ''*'' \<notin> set P \<Longrightarrow>
          takeWhile (\<lambda>x. x \<noteq> CHR ''*'') (P @ CHR ''*'' # ys) = P"
    by (induction P) auto
  from this [OF assms(1), of "[]"]
  have pre: "takeWhile (\<lambda>x. x \<noteq> CHR ''*'') (P @ ''*'') = P" by simp
  from assms(2) pre have k: "take (length P) k = P \<and> k \<in> set (map fst (store c))"
    by (simp add: keys_def)
  then show "take (length P) k = P" by simp
  from k show "map_of (store c) k \<noteq> None"
    by (simp add: map_of_eq_None_iff)
qed

lemma locked_map_source:
  "map_of (locked_map kvs acc) x = Some v \<Longrightarrow>
   map_of acc x = Some v \<or> (\<exists>k \<in> fst ` set kvs. seat_of_key k = x)"
  by (induction kvs acc rule: locked_map.induct)
     (auto simp: update_conv' split: if_splits)

lemma seats_without_key_unlocked:
  assumes "CHR '':'' \<notin> set sid" "CHR ''*'' \<notin> set sid"
    and "map_of (store c) (getSeatKey sid x) = None"
    and "set ks \<subseteq> set (keys c (''seatlock:'' @ sid @ '':'' @ ''*''))"
    and "length vals = length ks"
  shows "map_of (locked_map (zip ks vals) []) x = None"
proof (rule ccontr)
  assume "map_of (locked_map (zip ks vals) []) x \<noteq> None"
  then obtain v where "map_of (locked_map (zip ks vals) []) x = Some v" by auto
  from locked_map_source [OF this] obtain k where
    k: "k \<in> fst ` set (zip ks vals)" "seat_of_key k = x" by auto
  from k(1) have "k \<in> set ks" by (auto dest: set_zip_leftD)
  with assms(4) have kk: "k \<in> set (keys c ((''seatlock:'' @ sid @ '':'') @ ''*''))" by auto
  have star: "CHR ''*'' \<notin> set (''seatlock:'' @ sid @ '':'')" using assms(2) by simp
  note kp = keys_prefix [OF star kk]
  have "k = take (length (''seatlock:'' @ sid @ '':'')) k
            @ drop (length (''seatlock:'' @ sid @ '':'')) k" by simp
  with kp(1) have split:
    "k = ''seatlock:'' @ sid @ '':'' @ drop (length (''seatlock:'' @ sid @ '':'')) k"
    by (metis append.assoc)
  have "seat_of_key k = drop (length (''seatlock:'' @ sid @ '':'')) k"
    by (subst split) (rule seat_of_seat_key [OF assms(1)])
  with k(2) split have "k = getSeatKey sid x" by (simp add: getSeatKey_def)
  with kp(2) assms(3) show False by simp
qed

lemma get_all_length: "length (fst (get_all now ks c)) = length ks"
  by (induction ks arbitrary: c) (auto simp: split_beta)

text \<open>
  Against claim C2: in \<open>demo_booked\<close> the seats \<open>A-1\<close> and \<open>A-2\<close> of show \<open>S1\<close> belong to
  the \<open>CONFIRMED\<close> booking of \<open>U1\<close>, whose lock keys the booking handler has deleted. The
  lock request of another user, \<open>U2\<close>, for \<open>A-1\<close> is answered 200, not 409, and the seat
  map shows both seats with \<open>isLocked\<close> false.
\<close>

theorem booked_seat_lock_counterexample:
  "Booking_docs demo_booked =
     [\<lparr>booking_id = B1, userId = U1, showId = S1, movieId = M1,
       seats = [''A-1'', ''A-2''], totalAmount = 500, bookingStatus = CONFIRMED,
       paymentStatus = PENDING, bookingSource = WEB, cancelledAt = None\<rparr>] \<and>
   fst (lock_seats 3000 U2 S1 [''A-1''] demo_booked)
     = (200, LockedSeats ''Seats locked successfully'' [''A-1''] 300) \<and>
   fst (show_seats 3000 S1 demo_booked)
     = (200, SeatsBody demo_show
          [\<lparr>sv_seatId = ''A-1'', sv_row = ''A'', sv_number = 1, sv_type = ''REGULAR'',
            isLocked = False, lockedByUser = False\<rparr>,
           \<lparr>sv_seatId = ''A-2'', sv_row = ''A'', sv_number = 2, sv_type = ''REGULAR'',
            isLocked = False, lockedByUser = False\<rparr>,
           \<lparr>sv_seatId = ''B-1'', sv_row = ''B'', sv_number = 1, sv_type = ''PREMIUM'',
            isLocked = False, lockedByUser = False\<rparr>])"
proof (intro conjI)
  show "Booking_docs demo_booked =
     [\<lparr>booking_id = B1, userId = U1, showId = S1, movieId = M1,
       seats = [''A-1'', ''A-2''], totalAmount = 500, bookingStatus = CONFIRMED,
       paymentStatus = PENDING, bookingSource = WEB, cancelledAt = None\<rparr>]"
    by (simp add: demo_booked_eq)
  show "fst (lock_seats 3000 U2 S1 [''A-1''] demo_booked)
     = (200, LockedSeats ''Seats locked successfully'' [''A-1''] 300)"
    by (simp add: demo_booked_eq lock_eval)
qed (rule demo_booked_seat_map)

text \<open>
  Claim C2, as the code has it. The lock path and the seat map read lock keys only and
  never the bookings: their answers are the same whatever the bookings collection holds.
  So right after a booking has been created (201), which leaves a non-cancelled booking
  of the show with the requested seats and deletes their lock keys, a lock request by any
  user for any of those seats that passes the rate limit is granted with 200, and the seat
  map shows every one of those seats with \<open>isLocked\<close> false.
\<close>

theorem booked_seats_lock_by_keys_only:
  assumes "fst (fst (create_booking now oid u1 sid mid reqSeats s)) = 201"
    and "xs \<noteq> []" and "set xs \<subseteq> set reqSeats"
    and "\<not> js_gt (fst (rate_limit now' (redis (snd (create_booking now oid u1 sid mid reqSeats s)))
                     (lockRateKey u2 sid) LOCK_RATE_LIMIT_TTL)) LOCK_RATE_LIMIT_MAX"
  shows
    "(\<exists>b \<in> set (Booking_docs (snd (create_booking now oid u1 sid mid reqSeats s))).
        cast_ObjectId sid = Some (showId b) \<and> seats b = reqSeats \<and>
        bookingStatus b \<noteq> CANCELLED) \<and>
     fst (lock_seats now' u2 sid xs (snd (create_booking now oid u1 sid mid reqSeats s)))
       = (200, LockedSeats ''Seats locked successfully'' xs SEAT_LOCK_TTL_SECONDS) \<and>
     (\<forall>bs. fst (lock_seats now' u2 sid xs
                  ((snd (create_booking now oid u1 sid mid reqSeats s))\<lparr>Booking_docs := bs\<rparr>))
            = fst (lock_seats now' u2 sid xs (snd (create_booking now oid u1 sid mid reqSeats s)))) \<and>
     (\<forall>bs. fst (show_seats now' sid
                  ((snd (create_booking now oid u1 sid mid reqSeats s))\<lparr>Booking_docs := bs\<rparr>))
            = fst (show_seats now' sid (snd (create_booking now oid u1 sid mid reqSeats s)))) \<and>
     (\<exists>sh vs. fst (show_seats now' sid (snd (create_booking now oid u1 sid mid reqSeats s)))
                = (200, SeatsBody sh vs) \<and>
              (\<forall>v \<in> set vs. sv_seatId v \<in> set reqSeats \<longrightarrow> \<not> isLocked v))"
proof -
  let ?s1 = "snd (create_booking now oid u1 sid mid reqSeats s)"
  note ok = create_booking_201 [OF assms(1)]
  from ok(2) obtain c where c: "redis ?s1 = clear_locks sid reqSeats c" by blast
  have gone: "map_of (store (redis ?s1)) (getSeatKey sid x) = None" if "x \<in> set reqSeats" for x
    using that by (simp add: c clear_locks_store)
  have free: "conflicting_seats now' u2 sid xs (redis ?s1) = []"
    using assms(3) gone by (auto simp: conflicting_seats_def get_def filter_empty_conv)
  from ok(1) ok(3) obtain sh where
    sh: "Show_findById (Show_docs ?s1) sid = Inr (Some sh)" "show_isActive sh" by auto
  from ok(4) obtain i where i: "cast_ObjectId sid = Some i" by auto
  note colon = cast_ObjectId_chars(1) [OF i] and star = cast_ObjectId_chars(2) [OF i]
  have booked: "\<exists>b \<in> set (Booking_docs ?s1).
                  cast_ObjectId sid = Some (showId b) \<and> seats b = reqSeats \<and>
                  bookingStatus b \<noteq> CANCELLED"
    using ok(4) by auto
  have granted: "fst (lock_seats now' u2 sid xs ?s1)
                   = (200, LockedSeats ''Seats locked successfully'' xs SEAT_LOCK_TTL_SECONDS)"
    using assms(2) assms(4) sh free
    by (simp add: lock_seats_def split_beta Let_def acquire_conflicts
          conflicting_seats_after_gate)
  have indep: "\<forall>bs. fst (lock_seats now' u2 sid xs (?s1\<lparr>Booking_docs := bs\<rparr>))
                     = fst (lock_seats now' u2 sid xs ?s1)"
    by (simp add: lock_seats_def split_beta Let_def split: option.splits sum.splits)
  have indep_map: "\<forall>bs. fst (show_seats now' sid (?s1\<lparr>Booking_docs := bs\<rparr>))
                     = fst (show_seats now' sid ?s1)"
    by (simp add: show_seats_ignores_bookings)
  have shown: "\<exists>sh vs. fst (show_seats now' sid ?s1) = (200, SeatsBody sh vs) \<and>
                 (\<forall>v \<in> set vs. sv_seatId v \<in> set reqSeats \<longrightarrow> \<not> isLocked v)"
  proof -
    let ?ks = "keys (redis ?s1) (''seatlock:'' @ sid @ '':'' @ ''*'')"
    let ?vals = "fst (get_all now' ?ks (redis ?s1))"
    have none: "map_of (locked_map (zip ?ks ?vals) []) x = None" if "x \<in> set reqSeats" for x
      by (rule seats_without_key_unlocked [OF colon star gone [OF that]])
         (simp_all add: get_all_length)
    have "fst (show_seats now' sid ?s1)
            = (200, SeatsBody sh
                 (map (\<lambda>v. v\<lparr>isLocked := (map_of (locked_map (zip ?ks ?vals) []) (sv_seatId v)
                                             \<noteq> None),
                               lockedByUser := False\<rparr>) (base_seats sh)))"
      using sh by (simp add: show_seats_def split_beta Let_def)
    moreover have "\<forall>v \<in> set (map (\<lambda>v. v\<lparr>isLocked := (map_of (locked_map (zip ?ks ?vals) [])
                                                  (sv_seatId v) \<noteq> None),
                               lockedByUser := False\<rparr>) (base_seats sh)).
                     sv_seatId v \<in> set reqSeats \<longrightarrow> \<not> isLocked v"
      using none by auto
    ultimately show ?thesis by blast
  qed
  from booked granted indep indep_map shown show ?thesis by blast
qed

theorem booked_seats_lock_by_keys_only_witness:
  "fst (lock_seats 3000 U2 S1 [''A-2''] demo_booked)
     = (200, LockedSeats ''Seats locked successfully'' [''A-2''] 300)"
proof -
  have made: "fst (fst (create_booking 2000 B1 U1 S1 M1 [''A-1'', ''A-2'']
                          demo_locked)) = 201"
    by (simp add: demo_locked_eq booking_eval)
  have ne: "[''A-2''] \<noteq> []" by simp
  have sub: "set [''A-2''] \<subseteq> set [''A-1'', ''A-2'']" by simp
  have gate: "\<not> js_gt (fst (rate_limit 3000
                    (redis (snd (create_booking 2000 B1 U1 S1 M1
                                   [''A-1'', ''A-2''] demo_locked)))
                    (lockRateKey U2 S1) LOCK_RATE_LIMIT_TTL)) LOCK_RATE_LIMIT_MAX"
    unfolding demo_booked_def [symmetric]
    by (simp add: demo_booked_eq lock_eval)
  from booked_seats_lock_by_keys_only [OF made ne sub gate]
  show ?thesis by (simp add: demo_booked_def SEAT_LOCK_TTL_SECONDS_def)
qed

section \<open>No seat in two bookings\<close>

lemma not_cancelled: "(st \<noteq> CANCELLED) = (st = CONFIRMED)"
  by (cases st) simp_all

lemma index_clash:
  assumes "bookingStatus b \<noteq> CANCELLED" "bookingStatus d \<noteq> CANCELLED"
    "showId b = showId d" "x \<in> set (seats b)" "x \<in> set (seats d)"
  shows "\<exists>k \<in> set (index_keys b). k \<in> set (index_keys d)"
proof -
  from assms(1,2) have c: "bookingStatus b = CONFIRMED" "bookingStatus d = CONFIRMED"
    by (simp_all add: not_cancelled)
  from assms(4,5) have ne: "seats b \<noteq> []" "seats d \<noteq> []" by auto
  have "(showId d, Some x) \<in> set (index_keys b)"
    using c ne assms(3,4) by (simp add: index_keys_def)
  moreover have "(showId d, Some x) \<in> set (index_keys d)"
    using c ne assms(5) by (simp add: index_keys_def)
  ultimately show ?thesis by blast
qed

lemma Booking_validate_fields:
  assumes "Booking_validate doc = Some d"
  shows "seats d = seats doc" and "bookingStatus d = bookingStatus doc"
    and "cast_ObjectId (showId doc) = Some (showId d)"
    and "cast_ObjectId (booking_id doc) = Some (booking_id d)"
    and "[] \<notin> set (seats doc)"
  using assms
  by (auto simp: Booking_validate_def split: option.splits if_splits)

lemma Booking_create_overlap:
  assumes "Booking_validate doc = Some d"
    "bookingStatus doc \<noteq> CANCELLED" "b \<in> set coll" "showId b = showId d"
    "bookingStatus b \<noteq> CANCELLED" "set (seats b) \<inter> set (seats doc) \<noteq> {}"
  shows "Booking_create doc coll = Inl DuplicateKey"
proof -
  note f = Booking_validate_fields [OF assms(1)]
  from assms(6) f(1) obtain x where x: "x \<in> set (seats b)" "x \<in> set (seats d)" by auto
  from assms(2) f(2) have "bookingStatus d \<noteq> CANCELLED" by simp
  from index_clash [OF assms(5) this assms(4) x]
  show ?thesis using assms(1) assms(3) by (auto simp: Booking_create_def)
qed

lemma seats_disjoint_insert:
  assumes "seats_disjoint coll" "Booking_create doc0 coll = Inr (doc, coll')"
  shows "seats_disjoint coll'"
proof -
  from assms(2) have coll': "coll' = coll @ [doc]"
    and free: "\<forall>b \<in> set coll. \<not> (\<exists>k \<in> set (index_keys b). k \<in> set (index_keys doc))"
    by (auto simp: Booking_create_def split: option.splits if_splits)
  have new: "set (seats b) \<inter> set (seats doc) = {}"
    if "b \<in> set coll" "showId b = showId doc" "bookingStatus b \<noteq> CANCELLED"
       "bookingStatus doc \<noteq> CANCELLED" for b
  proof (rule ccontr)
    assume "set (seats b) \<inter> set (seats doc) \<noteq> {}"
    then obtain x where "x \<in> set (seats b)" "x \<in> set (seats doc)" by auto
    from index_clash [OF that(3) that(4) that(2) this] free that(1) show False by blast
  qed
  show ?thesis
    unfolding seats_disjoint_def coll'
  proof (intro allI impI)
    fix i j
    assume i: "i < length (coll @ [doc])" and j: "j < length (coll @ [doc])"
      and h: "i \<noteq> j \<and> showId ((coll @ [doc]) ! i) = showId ((coll @ [doc]) ! j) \<and>
              bookingStatus ((coll @ [doc]) ! i) \<noteq> CANCELLED \<and>
              bookingStatus ((coll @ [doc]) ! j) \<noteq> CANCELLED"
    consider "i < length coll" "j < length coll"
      | "i < length coll" "j = length coll"
      | "i = length coll" "j < length coll"
      using i j h by (auto simp: less_Suc_eq)
    then show "set (seats ((coll @ [doc]) ! i)) \<inter> set (seats ((coll @ [doc]) ! j)) = {}"
    proof cases
      case 1
      with h assms(1) show ?thesis by (simp add: seats_disjoint_def nth_append)
    next
      case 2
      with h new [of "coll ! i"] show ?thesis by (simp add: nth_append)
    next
      case 3
      with h new [of "coll ! j"] show ?thesis by (auto simp: nth_append)
    qed
  qed
qed

lemma save_booking_update:
  "save_booking d coll = coll \<or>
   (\<exists>k < length coll. find (\<lambda>b. booking_id b = booking_id d) coll = Some (coll ! k) \<and>
      save_booking d coll = coll[k := d])"
proof (induction coll)
  case Nil
  show ?case by simp
next
  case (Cons b bs)
  show ?case
  proof (cases "booking_id b = booking_id d")
    case True
    have "0 < length (b # bs) \<and>
          find (\<lambda>b. booking_id b = booking_id d) (b # bs) = Some ((b # bs) ! 0) \<and>
          save_booking d (b # bs) = (b # bs)[0 := d]"
      using True by simp
    then show ?thesis by blast
  next
    case False
    from Cons.IH show ?thesis
    proof
      assume "save_booking d bs = bs"
      with False show ?thesis by simp
    next
      assume "\<exists>k < length bs. find (\<lambda>b. booking_id b = booking_id d) bs = Some (bs ! k) \<and>
                save_booking d bs = bs[k := d]"
      then obtain k where k: "k < length bs"
        "find (\<lambda>b. booking_id b = booking_id d) bs = Some (bs ! k)"
        "save_booking d bs = bs[k := d]" by blast
      have "Suc k < length (b # bs) \<and>
            find (\<lambda>b. booking_id b = booking_id d) (b # bs) = Some ((b # bs) ! Suc k) \<and>
            save_booking d (b # bs) = (b # bs)[Suc k := d]"
        using False k by simp
      then show ?thesis by blast
    qed
  qed
qed

lemma seats_disjoint_update:
  assumes "seats_disjoint coll" "k < length coll"
    "bookingStatus d = CANCELLED \<or>
     (showId d = showId (coll ! k) \<and> seats d = seats (coll ! k) \<and>
      bookingStatus d = bookingStatus (coll ! k))"
  shows "seats_disjoint (coll[k := d])"
  unfolding seats_disjoint_def
proof (intro allI impI)
  fix i j
  assume i: "i < length (coll[k := d])" and j: "j < length (coll[k := d])"
    and h: "i \<noteq> j \<and> showId (coll[k := d] ! i) = showId (coll[k := d] ! j) \<and>
            bookingStatus (coll[k := d] ! i) \<noteq> CANCELLED \<and>
            bookingStatus (coll[k := d] ! j) \<noteq> CANCELLED"
  from i j have i': "i < length coll" and j': "j < length coll" by simp_all
  from assms(1) i' j' have old:
    "i \<noteq> j \<and> showId (coll ! i) = showId (coll ! j) \<and>
     bookingStatus (coll ! i) \<noteq> CANCELLED \<and> bookingStatus (coll ! j) \<noteq> CANCELLED
     \<longrightarrow> set (seats (coll ! i)) \<inter> set (seats (coll ! j)) = {}"
    unfolding seats_disjoint_def by blast
  have ni: "coll[k := d] ! i = (if i = k then d else coll ! i)"
    using i' by (simp add: nth_list_update)
  have nj: "coll[k := d] ! j = (if j = k then d else coll ! j)"
    using j' by (simp add: nth_list_update)
  show "set (seats (coll[k := d] ! i)) \<inter> set (seats (coll[k := d] ! j)) = {}"
  proof (cases "i = k")
    case True
    with h have jk: "j \<noteq> k" by auto
    from True h ni have nc: "bookingStatus d \<noteq> CANCELLED" by simp
    with assms(3) have same: "showId d = showId (coll ! k)" "seats d = seats (coll ! k)"
      "bookingStatus d = bookingStatus (coll ! k)" by simp_all
    from h True jk ni nj same have
      "i \<noteq> j \<and> showId (coll ! i) = showId (coll ! j) \<and>
       bookingStatus (coll ! i) \<noteq> CANCELLED \<and> bookingStatus (coll ! j) \<noteq> CANCELLED"
      by simp
    with old have "set (seats (coll ! i)) \<inter> set (seats (coll ! j)) = {}" by blast
    with True jk ni nj same show ?thesis by simp
  next
    case False
    show ?thesis
    proof (cases "j = k")
      case True
      from True h nj have nc: "bookingStatus d \<noteq> CANCELLED" by simp
      with assms(3) have same: "showId d = showId (coll ! k)" "seats d = seats (coll ! k)"
        "bookingStatus d = bookingStatus (coll ! k)" by simp_all
      from h True False ni nj same have
        "i \<noteq> j \<and> showId (coll ! i) = showId (coll ! j) \<and>
         bookingStatus (coll ! i) \<noteq> CANCELLED \<and> bookingStatus (coll ! j) \<noteq> CANCELLED"
        by simp
      with old have "set (seats (coll ! i)) \<inter> set (seats (coll ! j)) = {}" by blast
      with True False ni nj same show ?thesis by simp
    next
      case jk: False
      from False jk h ni nj have
        "i \<noteq> j \<and> showId (coll ! i) = showId (coll ! j) \<and>
         bookingStatus (coll ! i) \<noteq> CANCELLED \<and> bookingStatus (coll ! j) \<noteq> CANCELLED"
        by simp
      with old have "set (seats (coll ! i)) \<inter> set (seats (coll ! j)) = {}" by blast
      with False jk ni nj show ?thesis by simp
    qed
  qed
qed

lemma seats_disjoint_save:
  assumes "seats_disjoint coll"
    "find (\<lambda>x. booking_id x = booking_id d) coll = Some b"
    "bookingStatus d = CANCELLED \<or>
     (showId d = showId b \<and> seats d = seats b \<and> bookingStatus d = bookingStatus b)"
  shows "seats_disjoint (save_booking d coll)"
  using save_booking_update [of d coll]
proof
  assume "save_booking d coll = coll"
  with assms(1) show ?thesis by simp
next
  assume "\<exists>k < length coll. find (\<lambda>b. booking_id b = booking_id d) coll = Some (coll ! k) \<and>
            save_booking d coll = coll[k := d]"
  then obtain k where k: "k < length coll"
    "find (\<lambda>b. booking_id b = booking_id d) coll = Some (coll ! k)"
    "save_booking d coll = coll[k := d]" by blast
  from k(2) assms(2) have "coll ! k = b" by simp
  with assms(3) have "bookingStatus d = CANCELLED \<or>
     (showId d = showId (coll ! k) \<and> seats d = seats (coll ! k) \<and>
      bookingStatus d = bookingStatus (coll ! k))" by simp
  from seats_disjoint_update [OF assms(1) k(1) this] k(3) show ?thesis by simp
qed

lemma seats_disjoint_save_cancelled:
  assumes "seats_disjoint coll" "bookingStatus d = CANCELLED"
  shows "seats_disjoint (save_booking d coll)"
  using save_booking_update [of d coll]
proof
  assume "save_booking d coll = coll"
  with assms(1) show ?thesis by simp
next
  assume "\<exists>k < length coll. find (\<lambda>b. booking_id b = booking_id d) coll = Some (coll ! k) \<and>
            save_booking d coll = coll[k := d]"
  then obtain k where k: "k < length coll" "save_booking d coll = coll[k := d]" by blast
  from assms(2) have "bookingStatus d = CANCELLED \<or>
     (showId d = showId (coll ! k) \<and> seats d = seats (coll ! k) \<and>
      bookingStatus d = bookingStatus (coll ! k))" by simp
  from seats_disjoint_update [OF assms(1) k(1) this] k(2) show ?thesis by simp
qed

lemma lock_seats_bookings:
  "Booking_docs (snd (lock_seats now uid sid reqSeats s)) = Booking_docs s"
  by (simp add: lock_seats_def split_beta Let_def emit_def split: option.splits sum.splits)

lemma show_seats_bookings: "Booking_docs (snd (show_seats now sid s)) = Booking_docs s"
  by (simp add: show_seats_def split_beta Let_def split: option.splits sum.splits)

lemma tick_bookings: "Booking_docs (tick now s) = Booking_docs s"
  by (simp add: tick_def)

lemma create_booking_bookings:
  "Booking_docs (snd (create_booking now oid uid sid mid reqSeats s)) = Booking_docs s \<or>
   (\<exists>doc d. Booking_create doc (Booking_docs s)
              = Inr (d, Booking_docs (snd (create_booking now oid uid sid mid reqSeats s))))"
  by (auto simp: create_booking_def split_beta Let_def emit_def
      split: option.splits sum.splits)

lemma cancel_booking_preserves:
  assumes "seats_disjoint (Booking_docs s)"
  shows "seats_disjoint (Booking_docs (snd (cancel_booking now uid bid s)))"
  using assms
  by (auto simp: cancel_booking_def Let_def emit_def seats_disjoint_save_cancelled
      split: option.splits sum.splits)

lemma findById_self:
  assumes "Booking_findById coll bid = Inr (Some b)"
  shows "find (\<lambda>x. booking_id x = booking_id b) coll = Some b"
    and "cast_ObjectId bid = Some (booking_id b)"
proof -
  from assms obtain i where i: "cast_ObjectId bid = Some i"
    and f: "find (\<lambda>x. booking_id x = i) coll = Some b"
    by (auto simp: Booking_findById_def split: option.splits)
  from f have "booking_id b = i" by (auto simp: find_Some_iff)
  with f i show "find (\<lambda>x. booking_id x = booking_id b) coll = Some b"
    and "cast_ObjectId bid = Some (booking_id b)" by simp_all
qed

lemma mock_payment_bookings:
  "Booking_docs (snd (mock_payment now uid bid st payMethod failReason s)) =
     (case (if bid = [] then None else parse_status st) of
        None \<Rightarrow> Booking_docs s
      | Some status \<Rightarrow>
          (case Booking_findById (Booking_docs s) bid of
             Inl err \<Rightarrow> Booking_docs s
           | Inr None \<Rightarrow> Booking_docs s
           | Inr (Some b) \<Rightarrow>
               if userId b \<noteq> uid \<or> paymentStatus b = SUCCESS then Booking_docs s
               else save_booking
                      (if status = FAILED
                       then b\<lparr>paymentStatus := status, bookingStatus := CANCELLED\<rparr>
                       else b\<lparr>paymentStatus := status\<rparr>)
                      (Booking_docs s)))"
  by (simp add: mock_payment_def Let_def emit_def split: option.splits sum.splits)

lemma mock_payment_preserves:
  assumes "seats_disjoint (Booking_docs s)"
  shows "seats_disjoint (Booking_docs (snd (mock_payment now uid bid st payMethod failReason s)))"
proof (cases "if bid = [] then None else parse_status st")
  case None
  with assms show ?thesis by (simp add: mock_payment_bookings)
next
  case (Some status)
  show ?thesis
  proof (cases "Booking_findById (Booking_docs s) bid")
    case (Inl err)
    with Some assms show ?thesis by (simp add: mock_payment_bookings)
  next
    case (Inr found)
    show ?thesis
    proof (cases found)
      case None
      with Inr Some assms show ?thesis by (simp add: mock_payment_bookings)
    next
      case found_b: (Some b)
      with Inr have b: "Booking_findById (Booking_docs s) bid = Inr (Some b)" by simp
      note self = findById_self(1) [OF b]
      have failed: "seats_disjoint
                      (save_booking (b\<lparr>paymentStatus := status, bookingStatus := CANCELLED\<rparr>)
                         (Booking_docs s))"
        by (rule seats_disjoint_save_cancelled [OF assms]) simp
      have paid: "seats_disjoint (save_booking (b\<lparr>paymentStatus := status\<rparr>) (Booking_docs s))"
        by (rule seats_disjoint_save [OF assms, where b = b]) (simp_all add: self)
      from Some b assms failed paid show ?thesis
        by (cases "status = FAILED") (simp_all add: mock_payment_bookings)
    qed
  qed
qed

lemma create_booking_preserves:
  assumes "seats_disjoint (Booking_docs s)"
  shows "seats_disjoint (Booking_docs (snd (create_booking now oid uid sid mid reqSeats s)))"
  using create_booking_bookings [of now oid uid sid mid reqSeats s] assms
  by (auto intro: seats_disjoint_insert)

lemma movie_handlers_bookings:
  "Booking_docs (snd (get_movies now s)) = Booking_docs s"
  "Booking_docs (snd (get_movie now mid s)) = Booking_docs s"
  "Booking_docs (snd (create_movie oid ttl rel s)) = Booking_docs s"
  by (simp_all add: get_movies_def get_movie_def create_movie_def split_beta Let_def
      split: option.splits sum.splits)

lemma reachable_disjoint: "reachable s \<Longrightarrow> seats_disjoint (Booking_docs s)"
proof (induction rule: reachable.induct)
  case (start s)
  then show ?case by (simp add: seats_disjoint_def)
next
  case (timers s now)
  then show ?case by (simp add: tick_bookings)
next
  case (lock s now uid sid reqSeats)
  then show ?case by (simp add: lock_seats_bookings)
next
  case (seat_map s now sid)
  then show ?case by (simp add: show_seats_bookings)
next
  case (book s now oid uid sid mid reqSeats)
  from book.IH show ?case by (rule create_booking_preserves)
next
  case (cancel s now uid bid)
  from cancel.IH show ?case by (rule cancel_booking_preserves)
next
  case (pay s now uid bid st payMethod failReason)
  from pay.IH show ?case by (rule mock_payment_preserves)
next
  case (list_movies s now)
  then show ?case by (simp add: movie_handlers_bookings)
next
  case (show_movie s now mid)
  then show ?case by (simp add: movie_handlers_bookings)
next
  case (add_movie s oid ttl rel)
  then show ?case by (simp add: movie_handlers_bookings)
qed

text \<open>
  Claim C1. In every state the server reaches, two different booking documents of the same
  show that are both not cancelled have no seat in common. An insert never adds a document
  that would break this: a document the schema refuses (an identifier that is not an
  ObjectId, an empty seat identifier) is not inserted at all, and a non-cancelled document
  that passes the schema and shares a seat with a non-cancelled booking of the same show is
  refused by the unique index with a duplicate-key error.
\<close>

theorem bookings_never_share_a_seat:
  assumes "reachable s"
  shows "seats_disjoint (Booking_docs s) \<and>
         (\<forall>doc. Booking_validate doc = None
                \<longrightarrow> Booking_create doc (Booking_docs s) = Inl ValidationError) \<and>
         (\<forall>doc d. Booking_validate doc = Some d \<and> bookingStatus doc \<noteq> CANCELLED \<and>
                (\<exists>b \<in> set (Booking_docs s).
                    showId b = showId d \<and> bookingStatus b \<noteq> CANCELLED \<and>
                    set (seats b) \<inter> set (seats doc) \<noteq> {})
                \<longrightarrow> Booking_create doc (Booking_docs s) = Inl DuplicateKey)"
proof (intro conjI allI impI)
  show "seats_disjoint (Booking_docs s)" by (rule reachable_disjoint [OF assms])
next
  fix doc assume "Booking_validate doc = None"
  then show "Booking_create doc (Booking_docs s) = Inl ValidationError"
    by (simp add: Booking_create_def)
next
  fix doc d
  assume h: "Booking_validate doc = Some d \<and> bookingStatus doc \<noteq> CANCELLED \<and>
             (\<exists>b \<in> set (Booking_docs s).
                 showId b = showId d \<and> bookingStatus b \<noteq> CANCELLED \<and>
                 set (seats b) \<inter> set (seats doc) \<noteq> {})"
  then obtain b where b: "b \<in> set (Booking_docs s)" "showId b = showId d"
    "bookingStatus b \<noteq> CANCELLED" "set (seats b) \<inter> set (seats doc) \<noteq> {}" by blast
  from h have v: "Booking_validate doc = Some d" and nc: "bookingStatus doc \<noteq> CANCELLED"
    by simp_all
  show "Booking_create doc (Booking_docs s) = Inl DuplicateKey"
    by (rule Booking_create_overlap [OF v nc b])
qed

lemma demo_relocked_eq:
  "demo_relocked =
     \<lparr>redis = \<lparr>store = [(''ratelimit:lock:'' @ U1 @ '':'' @ S1, Bare (Num 1)),
                         (''ratelimit:booking:'' @ U1, Bare (Num 1)),
                         (''ratelimit:lock:'' @ U2 @ '':'' @ S1, Bare (Num 1)),
                         (''seatlock:'' @ S1 @ '':A-1'', Entry (LockInfo U2 3000) (Some 303000))],
               ttlTimers = [(''ratelimit:lock:'' @ U1 @ '':'' @ S1, 60000),
                            (''seatlock:'' @ S1 @ '':A-1'', 303000),
                            (''seatlock:'' @ S1 @ '':A-2'', 300000),
                            (''ratelimit:booking:'' @ U1, 62000),
                            (''ratelimit:lock:'' @ U2 @ '':'' @ S1, 63000)]\<rparr>,
      Show_docs = [demo_show], Movie_docs = [demo_movie],
      Booking_docs = [\<lparr>booking_id = B1, userId = U1, showId = S1,
                        movieId = M1, seats = [''A-1'', ''A-2''], totalAmount = 500,
                        bookingStatus = CONFIRMED, paymentStatus = PENDING,
                        bookingSource = WEB, cancelledAt = None\<rparr>],
      Payment_docs = [],
      io = Some [(''show:'' @ S1, seatsLocked S1 [''A-1'', ''A-2''] U1),
                 (''show:'' @ S1, seatsBooked S1 [''A-1'', ''A-2'']),
                 (''show:'' @ S1, seatsLocked S1 [''A-1''] U2)]\<rparr>"
  by (simp add: demo_relocked_def demo_booked_eq lock_eval)

lemma demo_reachable: "reachable demo_relocked"
proof -
  have "reachable demo_state" by (rule reachable.start) (simp add: demo_state_def)
  then have "reachable demo_locked" unfolding demo_locked_def by (rule reachable.lock)
  then have "reachable demo_booked" unfolding demo_booked_def by (rule reachable.book)
  then show ?thesis unfolding demo_relocked_def by (rule reachable.lock)
qed

text \<open>On the example: after \<open>U1\<close> has booked \<open>A-1\<close> and \<open>A-2\<close>, the insert of a
  booking of \<open>U2\<close> for \<open>A-1\<close> is refused by the index, and the insert of one with an
  empty seat identifier is refused by the schema.\<close>

theorem bookings_never_share_a_seat_witness:
  "reachable demo_relocked \<and> seats_disjoint (Booking_docs demo_relocked) \<and>
   Booking_create
     \<lparr>booking_id = B2, userId = U2, showId = S1, movieId = M1,
      seats = [''A-1''], totalAmount = 250, bookingStatus = CONFIRMED,
      paymentStatus = PENDING, bookingSource = WEB, cancelledAt = None\<rparr>
     (Booking_docs demo_relocked) = Inl DuplicateKey \<and>
   Booking_create
     \<lparr>booking_id = B2, userId = U2, showId = S1, movieId = M1,
      seats = ['''', ''A-1''], totalAmount = 500, bookingStatus = CONFIRMED,
      paymentStatus = PENDING, bookingSource = WEB, cancelledAt = None\<rparr>
     (Booking_docs demo_relocked) = Inl ValidationError"
proof -
  let ?doc = "\<lparr>booking_id = B2, userId = U2, showId = S1, movieId = M1,
      seats = [''A-1''], totalAmount = 250, bookingStatus = CONFIRMED,
      paymentStatus = PENDING, bookingSource = WEB, cancelledAt = None\<rparr>"
  let ?bad = "\<lparr>booking_id = B2, userId = U2, showId = S1, movieId = M1,
      seats = ['''', ''A-1''], totalAmount = 500, bookingStatus = CONFIRMED,
      paymentStatus = PENDING, bookingSource = WEB, cancelledAt = None\<rparr>"
  note inv = bookings_never_share_a_seat [OF demo_reachable]
  have valid: "Booking_validate ?doc = Some ?doc"
    by (simp add: Booking_validate_def demo_ids)
  have refused: "Booking_validate ?bad = None"
    by (simp add: Booking_validate_def demo_ids)
  have overlap: "bookingStatus ?doc \<noteq> CANCELLED \<and>
      (\<exists>b \<in> set (Booking_docs demo_relocked).
          showId b = showId ?doc \<and> bookingStatus b \<noteq> CANCELLED \<and>
          set (seats b) \<inter> set (seats ?doc) \<noteq> {})"
    by (simp add: demo_relocked_eq)
  from inv have "Booking_create ?doc (Booking_docs demo_relocked) = Inl DuplicateKey"
    using valid overlap by blast
  moreover from inv have "Booking_create ?bad (Booking_docs demo_relocked) = Inl ValidationError"
    using refused by blast
  ultimately show ?thesis using inv demo_reachable by blast
qed

section \<open>A booking refused by the unique index\<close>

lemma occupied_of_conflicting:
  assumes "cast_ObjectId sid = Some i"
  shows "\<exists>conflicting. Booking_find_conflicting coll sid reqSeats = Inr conflicting \<and>
           occupied_of conflicting reqSeats =
             filter (\<lambda>x. \<exists>b \<in> set coll. cast_ObjectId sid = Some (showId b) \<and>
                                     bookingStatus b \<noteq> CANCELLED \<and>
                                     x \<in> set (seats b)) reqSeats"
proof -
  let ?found = "filter (\<lambda>b. showId b = i \<and> (\<exists>x \<in> set (seats b). x \<in> set reqSeats) \<and>
                            bookingStatus b \<noteq> CANCELLED) coll"
  have "Booking_find_conflicting coll sid reqSeats = Inr ?found"
    using assms by (simp add: Booking_find_conflicting_def)
  moreover have "occupied_of ?found reqSeats =
             filter (\<lambda>x. \<exists>b \<in> set coll. cast_ObjectId sid = Some (showId b) \<and>
                                     bookingStatus b \<noteq> CANCELLED \<and>
                                     x \<in> set (seats b)) reqSeats"
    unfolding occupied_of_def
    by (rule filter_cong [OF refl]) (use assms in auto)
  ultimately show ?thesis by blast
qed

text \<open>
  Claim C5. A booking request that passes validation, the rate limit, the show and movie
  checks and the lock check, and whose insert is refused with a duplicate-key error, is
  answered 409 with exactly the requested seats, in request order, that occur in a
  non-cancelled booking of the show (a booking whose \<open>showId\<close> is the ObjectId the
  request names). The list is computed from the bookings collection and the request alone,
  and the collections of bookings and payments are what they were.
\<close>

theorem duplicate_key_reports_booked_seats:
  assumes "sid \<noteq> []" and "mid \<noteq> []" and "reqSeats \<noteq> []"
    and "\<not> js_gt (fst (rate_limit now (redis s) (bookingRateKey uid) BOOKING_RATE_LIMIT_TTL))
              BOOKING_RATE_LIMIT_MAX"
    and "Show_findById (Show_docs s) sid = Inr (Some sh)" and "show_isActive sh"
    and "Movie_findById (Movie_docs s) mid = Inr (Some mv)" and "movie_isActive mv"
    and "fst (validate_locks now uid sid reqSeats
               (snd (rate_limit now (redis s) (bookingRateKey uid) BOOKING_RATE_LIMIT_TTL)))
           = []"
    and "Booking_create
           \<lparr>booking_id = oid, userId = uid, showId = sid, movieId = mid, seats = reqSeats,
            totalAmount = basePrice sh * length reqSeats, bookingStatus = CONFIRMED,
            paymentStatus = PENDING, bookingSource = WEB, cancelledAt = None\<rparr>
           (Booking_docs s) = Inl DuplicateKey"
  shows "fst (create_booking now oid uid sid mid reqSeats s)
           = (409, InvalidSeats ''Some seats were already booked by others''
                     (filter (\<lambda>x. \<exists>b \<in> set (Booking_docs s).
                                      cast_ObjectId sid = Some (showId b) \<and>
                                      bookingStatus b \<noteq> CANCELLED \<and>
                                      x \<in> set (seats b)) reqSeats)) \<and>
         Booking_docs (snd (create_booking now oid uid sid mid reqSeats s)) = Booking_docs s \<and>
         Payment_docs (snd (create_booking now oid uid sid mid reqSeats s)) = Payment_docs s"
proof -
  from assms(5) obtain i where "cast_ObjectId sid = Some i"
    by (auto simp: Show_findById_def split: option.splits)
  from occupied_of_conflicting [OF this, of "Booking_docs s" reqSeats]
  obtain conflicting where
    q: "Booking_find_conflicting (Booking_docs s) sid reqSeats = Inr conflicting"
    and occ: "occupied_of conflicting reqSeats =
             filter (\<lambda>x. \<exists>b \<in> set (Booking_docs s). cast_ObjectId sid = Some (showId b) \<and>
                                     bookingStatus b \<noteq> CANCELLED \<and>
                                     x \<in> set (seats b)) reqSeats"
    by blast
  from assms q occ show ?thesis
    by (simp add: create_booking_def split_beta Let_def)
qed

theorem duplicate_key_reports_booked_seats_witness:
  "fst (create_booking 4000 B2 U2 S1 M1 [''A-1''] demo_relocked)
     = (409, InvalidSeats ''Some seats were already booked by others'' [''A-1'']) \<and>
   Booking_docs (snd (create_booking 4000 B2 U2 S1 M1 [''A-1''] demo_relocked))
     = Booking_docs demo_relocked"
proof -
  have a: "S1 \<noteq> []" "M1 \<noteq> []" "[''A-1''] \<noteq> []" by simp_all
  have gate: "\<not> js_gt (fst (rate_limit 4000 (redis demo_relocked) (bookingRateKey U2)
                    BOOKING_RATE_LIMIT_TTL)) BOOKING_RATE_LIMIT_MAX"
    by (simp add: demo_relocked_eq booking_eval)
  have sh: "Show_findById (Show_docs demo_relocked) S1 = Inr (Some demo_show)"
    "show_isActive demo_show"
    by (simp_all add: demo_relocked_eq Show_findById_def demo_ids demo_show_def)
  have mv: "Movie_findById (Movie_docs demo_relocked) M1 = Inr (Some demo_movie)"
    "movie_isActive demo_movie"
    by (simp_all add: demo_relocked_eq Movie_findById_def demo_ids demo_movie_def)
  have locks: "fst (validate_locks 4000 U2 S1 [''A-1'']
                 (snd (rate_limit 4000 (redis demo_relocked) (bookingRateKey U2)
                         BOOKING_RATE_LIMIT_TTL))) = []"
    by (simp add: demo_relocked_eq booking_eval)
  have dup: "Booking_create
           \<lparr>booking_id = B2, userId = U2, showId = S1, movieId = M1,
            seats = [''A-1''], totalAmount = basePrice demo_show * length [''A-1''],
            bookingStatus = CONFIRMED, paymentStatus = PENDING, bookingSource = WEB,
            cancelledAt = None\<rparr>
           (Booking_docs demo_relocked) = Inl DuplicateKey"
    by (simp add: demo_relocked_eq Booking_create_def Booking_validate_def demo_ids
          index_keys_def)
  from duplicate_key_reports_booked_seats
         [OF a gate sh mv locks dup]
  show ?thesis by (simp add: demo_relocked_eq demo_ids)
qed

section \<open>Settling a payment\<close>

lemma find_save:
  assumes "find (\<lambda>x. booking_id x = i) coll = Some b" "booking_id d = i"
  shows "find (\<lambda>x. booking_id x = i) (save_booking d coll) = Some d"
  using assms by (induction coll) (auto split: if_splits)

lemma findById_save:
  assumes "Booking_findById coll bid = Inr (Some b)" "booking_id d = booking_id b"
  shows "Booking_findById (save_booking d coll) bid = Inr (Some d)"
proof -
  note self = findById_self [OF assms(1)]
  from find_save [OF self(1) assms(2)] self(2) show ?thesis
    by (simp add: Booking_findById_def)
qed

lemmas payment_eval =
  mock_payment_def parse_status_def Booking_findById_def demo_ids Let_def emit_def keys_def
  del_many_def del_def

lemma demo_booked_found:
  "Booking_findById (Booking_docs demo_booked) B1
     = Inr (Some \<lparr>booking_id = B1, userId = U1, showId = S1, movieId = M1,
             seats = [''A-1'', ''A-2''], totalAmount = 500, bookingStatus = CONFIRMED,
             paymentStatus = PENDING, bookingSource = WEB, cancelledAt = None\<rparr>)"
  by (simp add: demo_booked_eq Booking_findById_def demo_ids)

lemma demo_paid_found:
  "Booking_findById (Booking_docs demo_paid) B1
     = Inr (Some \<lparr>booking_id = B1, userId = U1, showId = S1, movieId = M1,
             seats = [''A-1'', ''A-2''], totalAmount = 500, bookingStatus = CONFIRMED,
             paymentStatus = SUCCESS, bookingSource = WEB, cancelledAt = None\<rparr>)"
  by (simp add: demo_paid_def demo_booked_eq payment_eval)

text \<open>
  Claim C6. For a booking the endpoint finds: if its \<open>paymentStatus\<close> is already
  \<open>SUCCESS\<close>, every settlement request is refused (400, or 403 for another user) and the
  state is unchanged. If it is not, a request of its owner with outcome \<open>FAILED\<close> is
  answered 201 and leaves the booking with \<open>paymentStatus\<close> \<open>FAILED\<close> and \<open>bookingStatus\<close>
  \<open>CANCELLED\<close>, and one with outcome \<open>SUCCESS\<close> is answered 201 and leaves it with
  \<open>paymentStatus\<close> \<open>SUCCESS\<close>, all other fields as they were.
\<close>

theorem settle_payment_outcomes:
  assumes "Booking_findById (Booking_docs s) bid = Inr (Some b)"
  shows
    "(paymentStatus b = SUCCESS \<longrightarrow>
        fst (fst (mock_payment now uid bid st payMethod failReason s)) \<in> {400, 403} \<and>
        snd (mock_payment now uid bid st payMethod failReason s) = s) \<and>
     (bid \<noteq> [] \<and> userId b = uid \<and> paymentStatus b \<noteq> SUCCESS \<longrightarrow>
        fst (fst (mock_payment now uid bid ''FAILED'' payMethod failReason s)) = 201 \<and>
        Booking_findById
          (Booking_docs (snd (mock_payment now uid bid ''FAILED'' payMethod failReason s))) bid
          = Inr (Some (b\<lparr>paymentStatus := FAILED, bookingStatus := CANCELLED\<rparr>)) \<and>
        fst (fst (mock_payment now uid bid ''SUCCESS'' payMethod failReason s)) = 201 \<and>
        Booking_findById
          (Booking_docs (snd (mock_payment now uid bid ''SUCCESS'' payMethod failReason s))) bid
          = Inr (Some (b\<lparr>paymentStatus := SUCCESS\<rparr>)))"
proof -
  have rejected: "paymentStatus b = SUCCESS \<Longrightarrow>
        fst (fst (mock_payment now uid bid st payMethod failReason s)) \<in> {400, 403} \<and>
        snd (mock_payment now uid bid st payMethod failReason s) = s"
    using assms by (simp add: mock_payment_def split: option.splits)
  have failed: "bid \<noteq> [] \<Longrightarrow> userId b = uid \<Longrightarrow> paymentStatus b \<noteq> SUCCESS \<Longrightarrow>
        fst (fst (mock_payment now uid bid ''FAILED'' payMethod failReason s)) = 201 \<and>
        Booking_findById
          (Booking_docs (snd (mock_payment now uid bid ''FAILED'' payMethod failReason s))) bid
          = Inr (Some (b\<lparr>paymentStatus := FAILED, bookingStatus := CANCELLED\<rparr>))"
    using assms
    by (simp add: mock_payment_def parse_status_def Let_def findById_save)
  have paid: "bid \<noteq> [] \<Longrightarrow> userId b = uid \<Longrightarrow> paymentStatus b \<noteq> SUCCESS \<Longrightarrow>
        fst (fst (mock_payment now uid bid ''SUCCESS'' payMethod failReason s)) = 201 \<and>
        Booking_findById
          (Booking_docs (snd (mock_payment now uid bid ''SUCCESS'' payMethod failReason s))) bid
          = Inr (Some (b\<lparr>paymentStatus := SUCCESS\<rparr>))"
    using assms
    by (simp add: mock_payment_def parse_status_def Let_def emit_def findById_save
        split: option.splits)
  from rejected failed paid show ?thesis by blast
qed

theorem settle_payment_outcomes_witness:
  "fst (fst (mock_payment 5000 U1 B1 ''FAILED'' None None demo_booked)) = 201 \<and>
   Booking_findById
     (Booking_docs (snd (mock_payment 5000 U1 B1 ''FAILED'' None None demo_booked)))
     B1
     = Inr (Some \<lparr>booking_id = B1, userId = U1, showId = S1, movieId = M1,
             seats = [''A-1'', ''A-2''], totalAmount = 500, bookingStatus = CANCELLED,
             paymentStatus = FAILED, bookingSource = WEB, cancelledAt = None\<rparr>) \<and>
   Booking_findById (Booking_docs demo_paid) B1
     = Inr (Some \<lparr>booking_id = B1, userId = U1, showId = S1, movieId = M1,
             seats = [''A-1'', ''A-2''], totalAmount = 500, bookingStatus = CONFIRMED,
             paymentStatus = SUCCESS, bookingSource = WEB, cancelledAt = None\<rparr>) \<and>
   fst (fst (mock_payment 6000 U1 B1 ''SUCCESS'' None None demo_paid)) \<in> {400, 403} \<and>
   snd (mock_payment 6000 U1 B1 ''SUCCESS'' None None demo_paid) = demo_paid"
proof -
  note open_booking =
    settle_payment_outcomes [OF demo_booked_found, where uid = "U1" and now = 5000
      and payMethod = None and failReason = None]
  note paid_booking =
    settle_payment_outcomes [OF demo_paid_found, where uid = "U1" and now = 6000
      and payMethod = None and failReason = None and st = "''SUCCESS''"]
  from open_booking have
    "fst (fst (mock_payment 5000 U1 B1 ''FAILED'' None None demo_booked)) = 201 \<and>
     Booking_findById
       (Booking_docs (snd (mock_payment 5000 U1 B1 ''FAILED'' None None demo_booked)))
       B1
       = Inr (Some \<lparr>booking_id = B1, userId = U1, showId = S1, movieId = M1,
               seats = [''A-1'', ''A-2''], totalAmount = 500, bookingStatus = CANCELLED,
               paymentStatus = FAILED, bookingSource = WEB, cancelledAt = None\<rparr>)"
    by simp
  moreover from paid_booking have
    "fst (fst (mock_payment 6000 U1 B1 ''SUCCESS'' None None demo_paid)) \<in> {400, 403} \<and>
     snd (mock_payment 6000 U1 B1 ''SUCCESS'' None None demo_paid) = demo_paid"
    by simp
  ultimately show ?thesis using demo_paid_found by simp
qed

text \<open>
  Claim C10. A settlement request by a user who is not the owner of the booking changes
  nothing: the whole state (payments, bookings, lock keys, notifications) is what it was.
  With a booking identifier and an outcome \<open>SUCCESS\<close> or \<open>FAILED\<close> the answer is 403.
\<close>

theorem settle_by_other_user_rejected:
  assumes "Booking_findById (Booking_docs s) bid = Inr (Some b)" and "userId b \<noteq> uid"
  shows "snd (mock_payment now uid bid st payMethod failReason s) = s \<and>
         (bid \<noteq> [] \<and> (st = ''SUCCESS'' \<or> st = ''FAILED'') \<longrightarrow>
            fst (mock_payment now uid bid st payMethod failReason s)
              = (403, Message ''Cannot pay for another user booking''))"
  using assms
  by (auto simp: mock_payment_def parse_status_def split: option.splits)

theorem settle_by_other_user_rejected_witness:
  "snd (mock_payment 5000 U2 B1 ''SUCCESS'' None None demo_booked) = demo_booked \<and>
   fst (mock_payment 5000 U2 B1 ''SUCCESS'' None None demo_booked)
     = (403, Message ''Cannot pay for another user booking'')"
proof -
  have other: "userId \<lparr>booking_id = B1, userId = U1, showId = S1,
             movieId = M1, seats = [''A-1'', ''A-2''], totalAmount = 500,
             bookingStatus = CONFIRMED, paymentStatus = PENDING, bookingSource = WEB,
             cancelledAt = None\<rparr> \<noteq> U2"
    by simp
  from settle_by_other_user_rejected [OF demo_booked_found other, where now = 5000
      and st = "''SUCCESS''" and payMethod = None and failReason = None]
  show ?thesis by simp
qed

section \<open>The movie cache\<close>

lemma get_after_del: "fst (get now (del c key) key) = None"
  by (simp add: get_def del_def delete_conv')

lemma get_after_del2: "fst (get now (del (del c key) key') key) = None"
  by (simp add: get_def del_def delete_conv')

lemma find_append_None: "find P xs = None \<Longrightarrow> find P (xs @ ys) = find P ys"
  by (induction xs) (auto split: if_splits)

lemma Movie_create_found:
  assumes "Movie_create doc coll = Inr (m, coll')"
  shows "Movie_findById coll' (movie_id m) = Inr (Some m)"
    and "movie_isActive m = movie_isActive doc"
    and "coll' = coll @ [m]"
proof -
  from assms obtain i where i: "cast_ObjectId (movie_id doc) = Some i"
    and fresh: "\<forall>x \<in> set coll. movie_id x \<noteq> i"
    and m: "m = doc\<lparr>movie_id := i, title := js_trim (title doc)\<rparr>"
    and c: "coll' = coll @ [m]"
    by (auto simp: Movie_create_def Let_def split: option.splits if_splits)
  from fresh have "find (\<lambda>x. movie_id x = i) coll = None"
    by (simp add: find_None_iff)
  then show "Movie_findById coll' (movie_id m) = Inr (Some m)"
    by (simp add: Movie_findById_def c m find_append_None cast_ObjectId_idem [OF i])
  from m show "movie_isActive m = movie_isActive doc" by simp
  from c show "coll' = coll @ [m]" .
qed

lemmas movie_eval =
  get_movies_def get_movie_def create_movie_def Movie_create_def Movie_find_active_def
  Movie_findById_def demo_ids js_trim_def is_space_def get_def set_EX_def del_def Let_def
  MOVIES_CACHE_KEY_def MOVIES_TTL_SECONDS_def demo_movie_def demo_show_def

lemma demo_cached_eq:
  "demo_cached =
     \<lparr>redis = \<lparr>store = [(''movies:all'', Entry (Cached (MovieList [demo_movie])) (Some 60000))],
               ttlTimers = [(''movies:all'', 60000)]\<rparr>,
      Show_docs = [demo_show], Movie_docs = [demo_movie], Booking_docs = [],
      Payment_docs = [], io = Some []\<rparr>"
  by (simp add: demo_cached_def demo_state_def get_movies_def get_def set_EX_def Let_def
      Movie_find_active_def MOVIES_CACHE_KEY_def MOVIES_TTL_SECONDS_def demo_movie_def)

text \<open>
  Claim C9. For every key, a \<open>get\<close> that follows the \<open>del\<close> of that key finds nothing,
  so the read-through that follows an invalidation goes to the collection. After a movie
  has been created (201), which deletes the key of the list and the key of the new movie,
  the list read is answered from the collection (\<open>fromCache: false\<close>) with the active
  movies of the collection, the new one among its documents, and the detail read of the
  new movie is answered from the collection with that movie.
\<close>

theorem invalidate_then_read_loads:
  assumes "fst (create_movie oid ttl rel s) = (201, MovieCreated msg m)"
  shows
    "fst (get now (del c key) key) = None \<and>
     fst (get_movies now (snd (create_movie oid ttl rel s)))
       = (200, FreshMovies (Movie_find_active (Movie_docs (snd (create_movie oid ttl rel s))))) \<and>
     m \<in> set (Movie_docs (snd (create_movie oid ttl rel s))) \<and>
     fst (get_movie now (movie_id m) (snd (create_movie oid ttl rel s))) = (200, FreshMovie m)"
proof -
  let ?doc = "\<lparr>movie_id = oid, title = ttl, releaseDate = rel, movie_isActive = True\<rparr>"
  from assms obtain coll where
    created: "Movie_create ?doc (Movie_docs s) = Inr (m, coll)"
    by (auto simp: create_movie_def split: if_splits sum.splits)
  note found = Movie_create_found [OF created]
  from created have after:
    "snd (create_movie oid ttl rel s)
       = s\<lparr>Movie_docs := coll,
            redis := del (del (redis s) MOVIES_CACHE_KEY) (''movies:'' @ movie_id m)\<rparr>"
    using assms by (auto simp: create_movie_def split: if_splits)
  have list: "fst (get_movies now (snd (create_movie oid ttl rel s)))
       = (200, FreshMovies (Movie_find_active (Movie_docs (snd (create_movie oid ttl rel s)))))"
    by (simp add: after get_movies_def split_beta get_after_del2 Let_def)
  have detail: "fst (get_movie now (movie_id m) (snd (create_movie oid ttl rel s)))
                  = (200, FreshMovie m)"
    using found(1) found(2)
    by (simp add: after get_movie_def split_beta get_after_del Let_def)
  have mem: "m \<in> set (Movie_docs (snd (create_movie oid ttl rel s)))"
    using found(3) by (simp add: after)
  from list detail mem show ?thesis by (simp add: get_after_del)
qed

theorem invalidate_then_read_loads_witness:
  "fst (get_movies 1000 demo_cached) = (200, FromCache (Cached (MovieList [demo_movie]))) \<and>
   fst (get_movies 1000
         (snd (create_movie M2 ''Tenet'' (Some 1598400000000) demo_cached)))
     = (200, FreshMovies
               [\<lparr>movie_id = M2, title = ''Tenet'', releaseDate = Some 1598400000000,
                 movie_isActive = True\<rparr>, demo_movie]) \<and>
   fst (get_movie 1000 M2
         (snd (create_movie M2 ''Tenet'' (Some 1598400000000) demo_cached)))
     = (200, FreshMovie
               \<lparr>movie_id = M2, title = ''Tenet'', releaseDate = Some 1598400000000,
                movie_isActive = True\<rparr>)"
proof -
  let ?m = "\<lparr>movie_id = M2, title = ''Tenet'', releaseDate = Some 1598400000000,
             movie_isActive = True\<rparr>"
  have created: "fst (create_movie M2 ''Tenet'' (Some 1598400000000) demo_cached)
                   = (201, MovieCreated ''Movie created'' ?m)"
    by (simp add: demo_cached_eq movie_eval)
  have docs: "Movie_docs (snd (create_movie M2 ''Tenet'' (Some 1598400000000) demo_cached))
                = [demo_movie, ?m]"
    by (simp add: demo_cached_eq movie_eval)
  have sorted: "Movie_find_active [demo_movie, ?m] = [?m, demo_movie]"
    by (simp add: Movie_find_active_def demo_movie_def)
  have hit: "fst (get_movies 1000 demo_cached)
               = (200, FromCache (Cached (MovieList [demo_movie])))"
    by (simp add: demo_cached_eq get_movies_def get_def MOVIES_CACHE_KEY_def)
  from invalidate_then_read_loads [OF created, where now = 1000]
  show ?thesis by (simp add: docs sorted hit)
qed

end
